theory Spec2Isabelle
  imports Main "HOL-Library.Word" "HOL-Library.Signed_Division"
begin

unbundle bit_operations_syntax

section \<open>The Sinowealth driver of libratbag (driver-sinowealth.c)\<close>

text \<open>
  C types: \<open>uint8_t\<close> and \<open>char\<close> members of the packed report are \<open>8 word\<close>,
  \<open>int\<close> and \<open>unsigned int\<close> are \<open>32 word\<close> (two's complement; \<open>sint\<close> reads
  an \<open>int\<close>, \<open>uint\<close>/\<open>unat\<close> an \<open>unsigned int\<close>), \<open>size_t\<close> is \<open>64 word\<close>.
  Array sizes, loop counters and slot indices that stay small are \<open>nat\<close>.
\<close>

type_synonym byte = "8 word"
type_synonym c_int = "32 word"
type_synonym c_uint = "32 word"
type_synonym c_size_t = "64 word"

subsection \<open>Constants\<close>

definition SINOWEALTH_REPORT_ID_CONFIG :: byte where
  "SINOWEALTH_REPORT_ID_CONFIG = 0x4"

definition SINOWEALTH_REPORT_ID_CMD :: byte where
  "SINOWEALTH_REPORT_ID_CMD = 0x5"

definition SINOWEALTH_CMD_FIRMWARE_VERSION :: byte where
  "SINOWEALTH_CMD_FIRMWARE_VERSION = 0x1"

definition SINOWEALTH_CMD_GET_CONFIG :: byte where
  "SINOWEALTH_CMD_GET_CONFIG = 0x11"

definition SINOWEALTH_CONFIG_SIZE :: nat where
  "SINOWEALTH_CONFIG_SIZE = 520"

definition SINOWEALTH_XY_INDEPENDENT :: byte where
  "SINOWEALTH_XY_INDEPENDENT = 0x80"

definition SINOWEALTH_DPI_MIN :: nat where
  "SINOWEALTH_DPI_MIN = 100"

definition SINOWEALTH_DPI_MAX :: nat where
  "SINOWEALTH_DPI_MAX = 12000"

definition SINOWEALTH_DPI_STEP :: nat where
  "SINOWEALTH_DPI_STEP = 100"

definition SINOWEALTH_NUM_DPIS :: nat where
  "SINOWEALTH_NUM_DPIS = 6"

text \<open>\<open>enum rgb_effect\<close>, stored in the \<open>uint8_t rgb_effect\<close> member of the report.\<close>

definition RGB_OFF :: byte where "RGB_OFF = 0"
definition RGB_GLORIOUS :: byte where "RGB_GLORIOUS = 0x1"
definition RGB_SINGLE :: byte where "RGB_SINGLE = 0x2"
definition RGB_BREATHING :: byte where "RGB_BREATHING = 0x5"
definition RGB_BREATHING7 :: byte where "RGB_BREATHING7 = 0x3"
definition RGB_BREATHING1 :: byte where "RGB_BREATHING1 = 0xa"
definition RGB_TAIL :: byte where "RGB_TAIL = 0x4"
definition RGB_RAVE :: byte where "RGB_RAVE = 0x7"
definition RGB_WAVE :: byte where "RGB_WAVE = 0x9"

subsection \<open>Numeric codec\<close>

text \<open>
  \<open>sinowealth_raw_to_dpi\<close>: \<open>(raw + 1) * 100\<close> on \<open>int\<close>.
  \<open>sinowealth_dpi_to_raw\<close>: \<open>dpi / 100 - 1\<close> on \<open>int\<close>; C division truncates
  towards zero, which is \<open>sdiv\<close> on the signed reading.
\<close>

definition sinowealth_raw_to_dpi :: "c_int \<Rightarrow> c_int" where
  "sinowealth_raw_to_dpi raw = (raw + 1) * 100"

definition sinowealth_dpi_to_raw :: "c_int \<Rightarrow> c_int" where
  "sinowealth_dpi_to_raw dpi = word_of_int (sint dpi sdiv 100) - 1"

subsection \<open>The DPI list of \<open>sinowealth_read_profile\<close>\<close>

definition num_dpis :: nat where
  "num_dpis = (SINOWEALTH_DPI_MAX - SINOWEALTH_DPI_MIN) div SINOWEALTH_DPI_STEP + 1 + 1"

text \<open>
  The loop \<open>for (int i = 1; i < num_dpis; i++) dpis[i] = MIN + i * STEP\<close>,
  on the array \<open>dpis\<close> of \<open>n\<close> elements.
\<close>

function dpis_loop :: "nat \<Rightarrow> nat \<Rightarrow> c_uint list \<Rightarrow> c_uint list" where
  "dpis_loop i n dpis =
     (if i < n
      then dpis_loop (i + 1) n
             (dpis[i := of_nat (SINOWEALTH_DPI_MIN + i * SINOWEALTH_DPI_STEP)])
      else dpis)"
  by pat_completeness auto
termination
  by (relation "measure (\<lambda>(i, n, dpis). n - i)") auto

declare dpis_loop.simps [simp del]

text \<open>
  The local array is uninitialised in C; every element is assigned before it is
  read, so the model starts from zeros. \<open>dpis[0] = 0\<close>, then the loop.
\<close>

definition sinowealth_dpi_list :: "c_uint list" where
  "sinowealth_dpi_list = dpis_loop 1 num_dpis ((replicate num_dpis 0)[0 := 0])"

subsection \<open>The configuration report\<close>

record RGB8 =
  r :: byte
  g :: byte
  b :: byte

text \<open>
  \<open>struct sinowealth_config_report\<close>, packed. The arrays are lists; their declared
  lengths are collected in \<open>report_arrays_ok\<close>. The two 4-bit fields share one byte.
\<close>

record sinowealth_config_report =
  report_id :: byte
  command_id :: byte
  unk1 :: byte
  config_write :: byte
  unk2 :: "byte list"
  config :: byte
  dpi_count :: "4 word"
  active_dpi :: "4 word"
  dpi_enabled :: byte
  dpi :: "byte list"
  dpi_color :: "RGB8 list"
  rgb_effect :: byte
  glorious_mode :: byte
  glorious_direction :: byte
  single_color :: RGB8
  breathing_mode :: byte
  breathing_colorcount :: byte
  breathing_colors :: "RGB8 list"
  tail_mode :: byte
  rave_mode :: byte
  rave_colors :: "RGB8 list"
  wave_mode :: byte
  breathing1_mode :: byte
  breathing1_color :: RGB8
  unk4 :: byte
  lift_off_distance :: byte

definition report_arrays_ok :: "sinowealth_config_report \<Rightarrow> bool" where
  "report_arrays_ok cfg \<longleftrightarrow>
     length (unk2 cfg) = 6 \<and> length (dpi cfg) = 16 \<and> length (dpi_color cfg) = 8 \<and>
     length (breathing_colors cfg) = 7 \<and> length (rave_colors cfg) = 2"

text \<open>
  The bytes of the packed struct in declaration order, as \<open>memcpy\<close> sees them.
  Every member is one byte wide or an array of such, so there is no padding;
  \<open>dpi_count\<close> is the low nibble of its byte and \<open>active_dpi\<close> the high one
  (the order GCC gives bit-fields on a little-endian target).
\<close>

definition RGB8_bytes :: "RGB8 \<Rightarrow> byte list" where
  "RGB8_bytes c = [r c, g c, b c]"

definition config_report_bytes :: "sinowealth_config_report \<Rightarrow> byte list" where
  "config_report_bytes cfg =
     [report_id cfg, command_id cfg, unk1 cfg, config_write cfg] @
     unk2 cfg @
     [config cfg,
      ucast (dpi_count cfg) OR push_bit 4 (ucast (active_dpi cfg)),
      dpi_enabled cfg] @
     dpi cfg @
     concat (map RGB8_bytes (dpi_color cfg)) @
     [rgb_effect cfg, glorious_mode cfg, glorious_direction cfg] @
     RGB8_bytes (single_color cfg) @
     [breathing_mode cfg, breathing_colorcount cfg] @
     concat (map RGB8_bytes (breathing_colors cfg)) @
     [tail_mode cfg, rave_mode cfg] @
     concat (map RGB8_bytes (rave_colors cfg)) @
     [wave_mode cfg, breathing1_mode cfg] @
     RGB8_bytes (breathing1_color cfg) @
     [unk4 cfg, lift_off_distance cfg]"

text \<open>\<open>sizeof(struct sinowealth_config_report)\<close>: 97 one-byte cells.\<close>

definition sizeof_config_report :: nat where
  "sizeof_config_report = 97"

definition RGB8_at :: "byte list \<Rightarrow> nat \<Rightarrow> RGB8" where
  "RGB8_at bs k = \<lparr>r = bs ! k, g = bs ! (k + 1), b = bs ! (k + 2)\<rparr>"

text \<open>The struct read back from its bytes (the other direction of \<open>memcpy\<close>).\<close>

definition config_report_of_bytes :: "byte list \<Rightarrow> sinowealth_config_report" where
  "config_report_of_bytes bs =
     \<lparr>report_id = bs ! 0, command_id = bs ! 1, unk1 = bs ! 2, config_write = bs ! 3,
      unk2 = take 6 (drop 4 bs),
      config = bs ! 10,
      dpi_count = ucast (bs ! 11),
      active_dpi = ucast (drop_bit 4 (bs ! 11)),
      dpi_enabled = bs ! 12,
      dpi = take 16 (drop 13 bs),
      dpi_color = map (\<lambda>k. RGB8_at bs (29 + 3 * k)) [0..<8],
      rgb_effect = bs ! 53, glorious_mode = bs ! 54, glorious_direction = bs ! 55,
      single_color = RGB8_at bs 56,
      breathing_mode = bs ! 59, breathing_colorcount = bs ! 60,
      breathing_colors = map (\<lambda>k. RGB8_at bs (61 + 3 * k)) [0..<7],
      tail_mode = bs ! 82, rave_mode = bs ! 83,
      rave_colors = map (\<lambda>k. RGB8_at bs (84 + 3 * k)) [0..<2],
      wave_mode = bs ! 90, breathing1_mode = bs ! 91,
      breathing1_color = RGB8_at bs 92,
      unk4 = bs ! 95, lift_off_distance = bs ! 96\<rparr>"

text \<open>\<open>zalloc\<close> gives zeroed bytes; \<open>memcpy(dst, src, n)\<close> overwrites the first \<open>n\<close>.\<close>

definition zalloc :: "nat \<Rightarrow> byte list" where
  "zalloc n = replicate n 0"

definition memcpy :: "byte list \<Rightarrow> byte list \<Rightarrow> nat \<Rightarrow> byte list" where
  "memcpy dst src n = take n src @ drop n dst"

subsection \<open>The generic profile\<close>

text \<open>
  The profile store of libratbag. Of its enumerations only the enumerators this
  driver names are listed.
\<close>

datatype ratbag_led_mode =
  RATBAG_LED_OFF | RATBAG_LED_ON | RATBAG_LED_CYCLE | RATBAG_LED_BREATHING

datatype ratbag_led_type = RATBAG_LED_TYPE_SIDE | RATBAG_LED_TYPE_DPI

datatype ratbag_led_colordepth = RATBAG_LED_COLORDEPTH_RGB_888

datatype ratbag_resolution_capability = RATBAG_RESOLUTION_CAP_SEPARATE_XY_RESOLUTION

text \<open>
  Modelled from the spec: \<open>struct ratbag_color\<close> is declared in libratbag.h, which is
  not among the sources; the spec describes it as a 3-channel 0--255 colour.
\<close>

record ratbag_color =
  red :: byte
  green :: byte
  blue :: byte

record ratbag_resolution =
  index :: nat
  dpi_x :: c_uint
  dpi_y :: c_uint
  is_active :: bool
  is_default :: bool
  dpis :: "c_uint list"
  caps :: "ratbag_resolution_capability set"

record ratbag_led =
  led_type :: ratbag_led_type
  colordepth :: ratbag_led_colordepth
  mode :: ratbag_led_mode
  color :: ratbag_color
  modes :: "ratbag_led_mode set"

record ratbag_profile =
  resolutions :: "ratbag_resolution list"
  leds :: "ratbag_led list"
  profile_is_active :: bool
  hz :: c_uint
  rates :: "c_uint list"

text \<open>
  The device: \<open>drv_data\<close> holds the one member of \<open>struct sinowealth_data\<close>,
  \<open>profile\<close> is profile 0, the only one \<open>sinowealth_probe\<close> creates.
\<close>

record ratbag_device =
  drv_data :: sinowealth_config_report
  profile :: ratbag_profile

text \<open>
  \<open>sinowealth_probe\<close> calls \<open>ratbag_device_init_profiles(device, 1, 6, 0, 7)\<close>:
  six resolutions with indices 0 to 5 and seven LEDs.
\<close>

definition profile_ok :: "ratbag_profile \<Rightarrow> bool" where
  "profile_ok p \<longleftrightarrow>
     map index (resolutions p) = [0..<SINOWEALTH_NUM_DPIS] \<and>
     length (leds p) = SINOWEALTH_NUM_DPIS + 1"

text \<open>
  The HID transport, a collaborator outside the driver: each call answers with its
  return code; a read also answers with the buffer as the call leaves it.
\<close>

record hidraw =
  ratbag_hidraw_set_feature_report :: "byte \<Rightarrow> byte list \<Rightarrow> c_int"
  ratbag_hidraw_get_feature_report :: "byte \<Rightarrow> byte list \<Rightarrow> c_int \<times> byte list"

definition sinowealth_raw_to_color :: "RGB8 \<Rightarrow> ratbag_color" where
  "sinowealth_raw_to_color raw = \<lparr>red = r raw, green = g raw, blue = b raw\<rparr>"

definition sinowealth_color_to_raw :: "ratbag_color \<Rightarrow> RGB8" where
  "sinowealth_color_to_raw c = \<lparr>r = red c, g = green c, b = blue c\<rparr>"

text \<open>
  Modelled from the spec: the setters of the profile store
  (\<open>ratbag_profile_set_report_rate_list\<close>, \<open>ratbag_profile_set_report_rate\<close>,
  \<open>ratbag_resolution_set_dpi_list\<close>, \<open>ratbag_resolution_set_cap\<close>,
  \<open>ratbag_led_set_mode_capability\<close>) live in libratbag.c, which is not among the
  sources; each stores its argument in the entity it is called on.
\<close>

definition ratbag_profile_set_report_rate_list ::
  "c_uint list \<Rightarrow> ratbag_profile \<Rightarrow> ratbag_profile" where
  "ratbag_profile_set_report_rate_list xs p = p\<lparr>rates := xs\<rparr>"

definition ratbag_profile_set_report_rate :: "c_uint \<Rightarrow> ratbag_profile \<Rightarrow> ratbag_profile" where
  "ratbag_profile_set_report_rate x p = p\<lparr>hz := x\<rparr>"

definition ratbag_resolution_set_dpi_list ::
  "c_uint list \<Rightarrow> ratbag_resolution \<Rightarrow> ratbag_resolution" where
  "ratbag_resolution_set_dpi_list xs res = res\<lparr>dpis := xs\<rparr>"

definition ratbag_resolution_set_cap ::
  "ratbag_resolution_capability \<Rightarrow> ratbag_resolution \<Rightarrow> ratbag_resolution" where
  "ratbag_resolution_set_cap cap res = res\<lparr>caps := insert cap (caps res)\<rparr>"

definition ratbag_led_set_mode_capability :: "ratbag_led_mode \<Rightarrow> ratbag_led \<Rightarrow> ratbag_led" where
  "ratbag_led_set_mode_capability m led = led\<lparr>modes := insert m (modes led)\<rparr>"

subsection \<open>\<open>sinowealth_read_profile\<close>\<close>

text \<open>
  The body of \<open>ratbag_profile_for_each_resolution\<close> in the read: the raw bytes by
  mode, the override of a disabled slot, the active flag, the DPI list and capability.
  \<open>config->dpi[...]\<close> is a \<open>uint8_t\<close> promoted to \<open>int\<close> (\<open>ucast\<close>);
  \<open>1 << index\<close> is an \<open>int\<close>, of which the AND with a byte sees the low eight bits;
  in \<open>index == active_dpi - 1\<close> the right side is an \<open>int\<close> converted to
  \<open>unsigned\<close>, so that \<open>active_dpi = 0\<close> gives \<open>UINT_MAX\<close>.
\<close>

definition read_resolution ::
  "sinowealth_config_report \<Rightarrow> c_uint list \<Rightarrow> ratbag_resolution \<Rightarrow> ratbag_resolution" where
  "read_resolution cfg dpi_list res =
     (let res1 =
        (if config cfg AND SINOWEALTH_XY_INDEPENDENT \<noteq> 0
         then
           (let res_x = res\<lparr>dpi_x := sinowealth_raw_to_dpi (ucast (dpi cfg ! (index res * 2)))\<rparr>
            in res_x\<lparr>dpi_y := sinowealth_raw_to_dpi (ucast (dpi cfg ! (index res * 2 + 1)))\<rparr>)
         else
           (let res_x = res\<lparr>dpi_x := sinowealth_raw_to_dpi (ucast (dpi cfg ! index res))\<rparr>
            in res_x\<lparr>dpi_y := dpi_x res_x\<rparr>));
          res2 =
        (if dpi_enabled cfg AND push_bit (index res) 1 \<noteq> 0
         then res1\<lparr>dpi_x := 0, dpi_y := 0\<rparr>
         else res1);
          res3 = res2\<lparr>is_active := (of_nat (index res2) = (ucast (active_dpi cfg) :: c_int) - 1)\<rparr>;
          res4 = res3\<lparr>is_default := is_active res3\<rparr>
      in ratbag_resolution_set_cap RATBAG_RESOLUTION_CAP_SEPARATE_XY_RESOLUTION
           (ratbag_resolution_set_dpi_list dpi_list res4))"

text \<open>
  Body lighting (LED 0). The \<open>switch\<close> on \<open>rgb_effect\<close> has no default: an effect
  code outside the enumeration leaves mode and colour as they were.
\<close>

definition read_body_led :: "sinowealth_config_report \<Rightarrow> ratbag_led \<Rightarrow> ratbag_led" where
  "read_body_led cfg led0 =
     (let led1 = led0\<lparr>led_type := RATBAG_LED_TYPE_SIDE,
                      colordepth := RATBAG_LED_COLORDEPTH_RGB_888\<rparr>;
          led2 = ratbag_led_set_mode_capability RATBAG_LED_BREATHING
                   (ratbag_led_set_mode_capability RATBAG_LED_CYCLE
                     (ratbag_led_set_mode_capability RATBAG_LED_ON
                       (ratbag_led_set_mode_capability RATBAG_LED_OFF led1)))
      in if rgb_effect cfg = RGB_OFF then led2\<lparr>mode := RATBAG_LED_OFF\<rparr>
         else if rgb_effect cfg = RGB_SINGLE
           then led2\<lparr>mode := RATBAG_LED_ON,
                     color := sinowealth_raw_to_color (single_color cfg)\<rparr>
         else if rgb_effect cfg = RGB_GLORIOUS \<or> rgb_effect cfg = RGB_BREATHING \<or>
                 rgb_effect cfg = RGB_BREATHING7 \<or> rgb_effect cfg = RGB_TAIL \<or>
                 rgb_effect cfg = RGB_RAVE \<or> rgb_effect cfg = RGB_WAVE
           then led2\<lparr>mode := RATBAG_LED_CYCLE\<rparr>
         else if rgb_effect cfg = RGB_BREATHING1
           then led2\<lparr>mode := RATBAG_LED_BREATHING,
                     color := sinowealth_raw_to_color (breathing1_color cfg)\<rparr>
         else led2)"

text \<open>The DPI indicator LED \<open>i\<close>, for \<open>i\<close> from 1 to \<open>SINOWEALTH_NUM_DPIS\<close>.\<close>

definition read_dpi_led :: "sinowealth_config_report \<Rightarrow> nat \<Rightarrow> ratbag_led \<Rightarrow> ratbag_led" where
  "read_dpi_led cfg i led0 =
     ratbag_led_set_mode_capability RATBAG_LED_ON
       (led0\<lparr>led_type := RATBAG_LED_TYPE_DPI,
             colordepth := RATBAG_LED_COLORDEPTH_RGB_888,
             mode := RATBAG_LED_ON,
             color := sinowealth_raw_to_color (dpi_color cfg ! (i - 1))\<rparr>)"

definition read_dpi_leds :: "sinowealth_config_report \<Rightarrow> ratbag_led list \<Rightarrow> ratbag_led list" where
  "read_dpi_leds cfg ls =
     fold (\<lambda>i acc. acc[i := read_dpi_led cfg i (acc ! i)]) [1..<SINOWEALTH_NUM_DPIS + 1] ls"

text \<open>
  What the read makes of the profile once the report is in \<open>cfg\<close>
  (from the report rate to \<open>profile->is_active = true\<close>).
\<close>

definition populate_profile :: "sinowealth_config_report \<Rightarrow> ratbag_profile \<Rightarrow> ratbag_profile" where
  "populate_profile cfg p =
     (let p1 = ratbag_profile_set_report_rate 1000
                 (ratbag_profile_set_report_rate_list [1000] p);
          p2 = p1\<lparr>resolutions := map (read_resolution cfg sinowealth_dpi_list) (resolutions p1)\<rparr>;
          p3 = p2\<lparr>leds := (leds p2)[0 := read_body_led cfg (leds p2 ! 0)]\<rparr>;
          p4 = p3\<lparr>leds := read_dpi_leds cfg (leds p3)\<rparr>
      in p4\<lparr>profile_is_active := True\<rparr>)"

text \<open>
  The read itself. Both comparisons of \<open>rc\<close> are against a \<open>sizeof\<close>, a
  \<open>size_t\<close>: the usual arithmetic conversions turn the \<open>int rc\<close> into a
  \<open>size_t\<close> first (\<open>scast\<close>: sign extension, then read as unsigned).
  The result is the return value and the device as the call leaves it.
\<close>

definition sinowealth_read_profile :: "hidraw \<Rightarrow> ratbag_device \<Rightarrow> c_int \<times> ratbag_device" where
  "sinowealth_read_profile hid dev =
     (let cmd = [SINOWEALTH_REPORT_ID_CMD, SINOWEALTH_CMD_GET_CONFIG, 0, 0, 0, 0];
          rc_cmd = ratbag_hidraw_set_feature_report hid SINOWEALTH_REPORT_ID_CMD cmd
      in if (scast rc_cmd :: c_size_t) \<noteq> of_nat (length cmd) then (- 1, dev)
         else
           (let (rc, data) = ratbag_hidraw_get_feature_report hid SINOWEALTH_REPORT_ID_CONFIG
                               (zalloc SINOWEALTH_CONFIG_SIZE)
            in if (scast rc :: c_size_t) < of_nat sizeof_config_report then (- 1, dev)
               else
                 (let cfg = config_report_of_bytes (take sizeof_config_report data)
                  in (0, dev\<lparr>drv_data := cfg,
                             profile := populate_profile cfg (profile dev)\<rparr>))))"

subsection \<open>\<open>sinowealth_commit\<close>\<close>

text \<open>
  The first loop over the resolutions, with its \<open>break\<close>: at the first resolution
  whose axes differ and are both nonzero, \<open>config->config &= SINOWEALTH_XY_INDEPENDENT\<close>.
\<close>

fun xy_independent_loop ::
  "ratbag_resolution list \<Rightarrow> sinowealth_config_report \<Rightarrow> sinowealth_config_report" where
  "xy_independent_loop [] cfg = cfg"
| "xy_independent_loop (res # rest) cfg =
     (if dpi_x res \<noteq> dpi_y res \<and> dpi_x res \<noteq> 0 \<and> dpi_y res \<noteq> 0
      then cfg\<lparr>config := config cfg AND SINOWEALTH_XY_INDEPENDENT\<rparr>
      else xy_independent_loop rest cfg)"

text \<open>
  The body of the second loop: the raw byte or bytes of the slot (the \<open>int\<close> from
  \<open>sinowealth_dpi_to_raw\<close> cut to \<open>uint8_t\<close>), then the enable bit.
  A write past the sixteen raw bytes does not happen for the six slots of the profile;
  the list update leaves the array alone there.
\<close>

definition commit_resolution ::
  "ratbag_resolution \<Rightarrow> sinowealth_config_report \<Rightarrow> sinowealth_config_report" where
  "commit_resolution res cfg =
     (let cfg1 =
        (if config cfg AND SINOWEALTH_XY_INDEPENDENT \<noteq> 0
         then
           (let cfg_x = cfg\<lparr>dpi := (dpi cfg)[index res * 2 :=
                               ucast (sinowealth_dpi_to_raw (dpi_x res))]\<rparr>
            in cfg_x\<lparr>dpi := (dpi cfg_x)[index res * 2 + 1 :=
                               ucast (sinowealth_dpi_to_raw (dpi_y res))]\<rparr>)
         else cfg\<lparr>dpi := (dpi cfg)[index res := ucast (sinowealth_dpi_to_raw (dpi_x res))]\<rparr>)
      in if dpi_x res \<noteq> 0 \<and> dpi_y res \<noteq> 0
         then cfg1\<lparr>dpi_enabled := dpi_enabled cfg1 AND NOT (push_bit (index res) 1)\<rparr>
         else cfg1)"

definition commit_body_led :: "ratbag_led \<Rightarrow> sinowealth_config_report \<Rightarrow> sinowealth_config_report" where
  "commit_body_led led0 cfg =
     (case mode led0 of
        RATBAG_LED_OFF \<Rightarrow> cfg\<lparr>rgb_effect := RGB_OFF\<rparr>
      | RATBAG_LED_ON \<Rightarrow>
          cfg\<lparr>rgb_effect := RGB_SINGLE,
              single_color := sinowealth_color_to_raw (color led0)\<rparr>
      | RATBAG_LED_CYCLE \<Rightarrow> cfg\<lparr>rgb_effect := RGB_GLORIOUS\<rparr>
      | RATBAG_LED_BREATHING \<Rightarrow>
          cfg\<lparr>rgb_effect := RGB_BREATHING1,
              breathing1_color := sinowealth_color_to_raw (color led0)\<rparr>)"

definition commit_dpi_leds ::
  "ratbag_led list \<Rightarrow> sinowealth_config_report \<Rightarrow> sinowealth_config_report" where
  "commit_dpi_leds ls cfg =
     fold (\<lambda>i acc. acc\<lparr>dpi_color := (dpi_color acc)[i - 1 :=
                          sinowealth_color_to_raw (color (ls ! i))]\<rparr>)
       [1..<SINOWEALTH_NUM_DPIS + 1] cfg"

text \<open>The report as \<open>sinowealth_commit\<close> has it when it sets the write magic.\<close>

definition commit_config :: "ratbag_device \<Rightarrow> sinowealth_config_report" where
  "commit_config dev =
     (let p = profile dev;
          c1 = (drv_data dev)\<lparr>config := config (drv_data dev) AND NOT SINOWEALTH_XY_INDEPENDENT\<rparr>;
          c2 = xy_independent_loop (resolutions p) c1;
          c3 = c2\<lparr>dpi_enabled := 0xFF\<rparr>;
          c4 = fold commit_resolution (resolutions p) c3;
          c5 = commit_body_led (leds p ! 0) c4;
          c6 = commit_dpi_leds (leds p) c5
      in c6\<lparr>config_write := 0x7b\<rparr>)"

text \<open>The buffer handed to the transport: \<open>zalloc\<close>, then \<open>memcpy\<close> of the report.\<close>

definition commit_data :: "ratbag_device \<Rightarrow> byte list" where
  "commit_data dev =
     memcpy (zalloc SINOWEALTH_CONFIG_SIZE) (config_report_bytes (commit_config dev))
       sizeof_config_report"

text \<open>
  The commit: the return value and the device as the call leaves it. Here \<open>rc\<close> is
  compared with the \<open>int\<close> 520.
\<close>

definition sinowealth_commit :: "hidraw \<Rightarrow> ratbag_device \<Rightarrow> c_int \<times> ratbag_device" where
  "sinowealth_commit hid dev =
     (let dev1 = dev\<lparr>drv_data := commit_config dev\<rparr>;
          rc = ratbag_hidraw_set_feature_report hid SINOWEALTH_REPORT_ID_CONFIG (commit_data dev)
      in if rc \<noteq> of_nat SINOWEALTH_CONFIG_SIZE then (- 1, dev1) else (0, dev1))"

subsection \<open>Concrete inputs\<close>

text \<open>
  A profile as \<open>sinowealth_probe\<close> creates it, here with the resolutions
  (800, 800), (400, 800), (0, 0), (1600, 1600), (0, 0), (0, 0) and a cycling body LED.
\<close>

definition example_resolution :: "nat \<Rightarrow> c_uint \<Rightarrow> c_uint \<Rightarrow> ratbag_resolution" where
  "example_resolution i x y =
     \<lparr>index = i, dpi_x = x, dpi_y = y, is_active = False, is_default = False,
      dpis = [], caps = {}\<rparr>"

definition example_led :: "ratbag_led_mode \<Rightarrow> ratbag_led" where
  "example_led m =
     \<lparr>led_type = RATBAG_LED_TYPE_DPI, colordepth = RATBAG_LED_COLORDEPTH_RGB_888,
      mode = m, color = \<lparr>red = 255, green = 0, blue = 0\<rparr>, modes = {}\<rparr>"

definition example_profile :: ratbag_profile where
  "example_profile =
     \<lparr>resolutions =
        [example_resolution 0 800 800, example_resolution 1 400 800,
         example_resolution 2 0 0, example_resolution 3 1600 1600,
         example_resolution 4 0 0, example_resolution 5 0 0],
      leds =
        [example_led RATBAG_LED_CYCLE, example_led RATBAG_LED_ON, example_led RATBAG_LED_ON,
         example_led RATBAG_LED_ON, example_led RATBAG_LED_ON, example_led RATBAG_LED_ON,
         example_led RATBAG_LED_ON],
      profile_is_active = False, hz = 0, rates = []\<rparr>"

text \<open>A report with config byte 0x05 (XY-independent bit clear, two other bits set).\<close>

definition example_report :: sinowealth_config_report where
  "example_report =
     \<lparr>report_id = 0x4, command_id = 0x11, unk1 = 0, config_write = 0,
      unk2 = [0, 0, 0, 0, 0, 0],
      config = 0x05, dpi_count = 6, active_dpi = 1, dpi_enabled = 0,
      dpi = [3, 7, 15, 31, 63, 119, 0, 0, 0, 0, 0, 0, 0, 0, 0, 0],
      dpi_color = replicate 8 \<lparr>r = 0, g = 0, b = 0\<rparr>,
      rgb_effect = 0x9, glorious_mode = 0, glorious_direction = 0,
      single_color = \<lparr>r = 0, g = 0, b = 0\<rparr>,
      breathing_mode = 0, breathing_colorcount = 7,
      breathing_colors = replicate 7 \<lparr>r = 0, g = 0, b = 0\<rparr>,
      tail_mode = 0, rave_mode = 0,
      rave_colors = replicate 2 \<lparr>r = 0, g = 0, b = 0\<rparr>,
      wave_mode = 0, breathing1_mode = 0,
      breathing1_color = \<lparr>r = 0, g = 0, b = 0\<rparr>,
      unk4 = 0, lift_off_distance = 1\<rparr>"

definition example_device :: ratbag_device where
  "example_device = \<lparr>drv_data = example_report, profile = example_profile\<rparr>"

text \<open>
  A device answer of 520 bytes: byte 11 = 0x26 (\<open>dpi_count\<close> 6, \<open>active_dpi\<close> 2),
  \<open>dpi_enabled\<close> = 0x01 (slot 0 disabled), \<open>dpi[0]\<close> = 7, \<open>dpi[1]\<close> = 15,
  \<open>rgb_effect\<close> = \<open>RGB_WAVE\<close>, everything else zero.
\<close>

definition example_data :: "byte list" where
  "example_data = (zalloc SINOWEALTH_CONFIG_SIZE)[11 := 0x26, 12 := 0x01, 13 := 7, 14 := 15, 53 := 0x9]"

text \<open>A transport that accepts every write in full and answers the read with \<open>example_data\<close>.\<close>

definition example_hid :: hidraw where
  "example_hid =
     \<lparr>ratbag_hidraw_set_feature_report = (\<lambda>report_id bs. of_nat (length bs)),
      ratbag_hidraw_get_feature_report = (\<lambda>report_id buf. (520, example_data))\<rparr>"

text \<open>
  A transport whose read fails: it returns \<open>-5\<close> (\<open>-EIO\<close>) and leaves the buffer as it got it.
\<close>

definition failing_hid :: hidraw where
  "failing_hid =
     \<lparr>ratbag_hidraw_set_feature_report = (\<lambda>report_id bs. of_nat (length bs)),
      ratbag_hidraw_get_feature_report = (\<lambda>report_id buf. (- 5, buf))\<rparr>"

text \<open>The example device with the body LED on, in the colour (255, 128, 7).\<close>

definition example_device_on :: ratbag_device where
  "example_device_on =
     example_device\<lparr>profile := example_profile\<lparr>leds :=
       (leds example_profile)[0 :=
         (example_led RATBAG_LED_ON)\<lparr>color := \<lparr>red = 255, green = 128, blue = 7\<rparr>\<rparr>]\<rparr>\<rparr>"

text \<open>
  A device answer of 520 bytes with \<open>rgb_effect\<close> = \<open>RGB_SINGLE\<close>,
  \<open>single_color\<close> = (255, 128, 7), byte 11 = 0x16 and \<open>dpi[0]\<close> = 7, everything else
  zero, and a transport that answers the read with it.
\<close>

definition single_data :: "byte list" where
  "single_data =
     (zalloc SINOWEALTH_CONFIG_SIZE)[11 := 0x16, 13 := 7, 53 := 0x2, 56 := 255, 57 := 128, 58 := 7]"

definition single_hid :: hidraw where
  "single_hid =
     \<lparr>ratbag_hidraw_set_feature_report = (\<lambda>report_id bs. of_nat (length bs)),
      ratbag_hidraw_get_feature_report = (\<lambda>report_id buf. (520, single_data))\<rparr>"

section \<open>Numeric codec and DPI list\<close>

lemma num_dpis_value: "num_dpis = 121"
  by (simp add: num_dpis_def SINOWEALTH_DPI_MAX_def SINOWEALTH_DPI_MIN_def
      SINOWEALTH_DPI_STEP_def)

lemma dpis_loop_length: "length (dpis_loop i n xs) = length xs"
  by (induction i n xs rule: dpis_loop.induct) (simp add: dpis_loop.simps)

lemma dpis_loop_nth:
  "length xs = n \<Longrightarrow> k < n \<Longrightarrow>
   dpis_loop i n xs ! k =
     (if i \<le> k then of_nat (SINOWEALTH_DPI_MIN + k * SINOWEALTH_DPI_STEP) else xs ! k)"
proof (induction i n xs rule: dpis_loop.induct)
  case (1 i n dpis)
  show ?case
  proof (cases "i < n")
    case True
    have "k = i \<or> i + 1 \<le> k \<or> k < i" by arith
    then show ?thesis
      using 1 True
      by (subst dpis_loop.simps)
         (auto simp: nth_list_update simp del: of_nat_add of_nat_mult)
  next
    case False
    then show ?thesis using 1 by (subst dpis_loop.simps) simp
  qed
qed

lemma dpi_list_length: "length sinowealth_dpi_list = 121"
  by (simp add: sinowealth_dpi_list_def dpis_loop_length num_dpis_value)

lemma dpi_list_nth:
  "k < 121 \<Longrightarrow>
   sinowealth_dpi_list ! k = (if k = 0 then 0 else of_nat (100 + k * 100))"
  by (simp add: sinowealth_dpi_list_def dpis_loop_nth num_dpis_value
      SINOWEALTH_DPI_MIN_def SINOWEALTH_DPI_STEP_def)

text \<open>
  Between the sentinel and the end the list rises by 100 at each place, from 200 at
  place 1 to 12100 at place 120.
\<close>

lemma dpi_list_unat:
  assumes "1 \<le> k" "k \<le> 120"
  shows "unat (sinowealth_dpi_list ! k) = 100 * (k + 1)"
proof -
  have "sinowealth_dpi_list ! k = (of_nat (100 * (k + 1)) :: c_uint)"
    using assms by (simp add: dpi_list_nth)
  moreover have "100 * (k + 1) < (2 :: nat) ^ 32" using assms by simp
  ultimately show ?thesis
    by (simp add: unat_of_nat del: of_nat_mult of_nat_add)
qed

lemma dpi_list_increasing:
  assumes "1 \<le> j" "j < k" "k \<le> 120"
  shows "sinowealth_dpi_list ! j < sinowealth_dpi_list ! k"
  using assms by (simp add: word_less_nat_alt dpi_list_unat)

lemma sint_small:
  fixes d :: c_int
  assumes "unat d < 2 ^ 31"
  shows "sint d = int (unat d)"
proof -
  have "int (unat d) < 2 ^ 31"
    using assms by (metis of_nat_less_iff of_nat_numeral of_nat_power)
  moreover have "- (2 ^ 31) \<le> int (unat d)"
    by (rule order_trans [where y = 0]) simp_all
  ultimately have "signed_take_bit 31 (int (unat d)) = int (unat d)"
    by (intro signed_take_bit_int_eq_self)
  moreover have "sint d = signed_take_bit 31 (int (unat d))"
    by (simp add: sint_uint)
  ultimately show ?thesis
    by (simp only:)
qed

text \<open>
  C7. Over the valid domain, the multiples of 100 from 100 to 12000,
  \<open>sinowealth_raw_to_dpi\<close> undoes \<open>sinowealth_dpi_to_raw\<close>; the raw value fits the
  byte it is stored in, so the same holds through the \<open>uint8_t\<close> of the report.
\<close>

theorem raw_dpi_roundtrip:
  assumes "SINOWEALTH_DPI_MIN \<le> unat d" and "unat d \<le> SINOWEALTH_DPI_MAX"
    and "SINOWEALTH_DPI_STEP dvd unat d"
  shows "sinowealth_raw_to_dpi (sinowealth_dpi_to_raw d) = d \<and>
         sinowealth_raw_to_dpi (ucast (ucast (sinowealth_dpi_to_raw d) :: byte)) = d"
proof -
  from assms(3) obtain k where k: "unat d = 100 * k"
    by (auto simp: SINOWEALTH_DPI_STEP_def)
  have kb: "1 \<le> k" "k \<le> 120"
    using assms(1,2) k by (auto simp: SINOWEALTH_DPI_MIN_def SINOWEALTH_DPI_MAX_def)
  have d: "d = of_nat (100 * k)"
    using k by (metis of_nat_unat ucast_id)
  have "sint d = int (100 * k)"
    using kb k by (simp add: sint_small)
  moreover have "sgn (int (100 * k)) = 1"
    using kb by simp
  ultimately have q: "sint d sdiv 100 = int k"
    by (simp add: signed_divide_int_def)
  have "word_of_int (int k) - 1 = (of_nat (k - 1) :: c_int)"
    using kb by (simp add: of_nat_diff)
  then have raw: "sinowealth_dpi_to_raw d = of_nat (k - 1)"
    by (simp add: sinowealth_dpi_to_raw_def q)
  have "k - 1 < 2 ^ 8" "k - 1 < 2 ^ 32"
    using kb by simp_all
  then have "take_bit 8 (k - 1) = k - 1" "take_bit 32 (k - 1) = k - 1"
    by (simp_all add: take_bit_nat_eq_self)
  then have through_byte:
    "ucast (ucast (of_nat (k - 1) :: c_int) :: byte) = (of_nat (k - 1) :: c_int)"
    by (simp add: unsigned_of_nat)
  have inv: "sinowealth_raw_to_dpi (of_nat (k - 1)) = d"
    using kb by (simp add: sinowealth_raw_to_dpi_def d)
  show ?thesis
    unfolding raw through_byte using inv by simp
qed

theorem raw_dpi_roundtrip_witness:
  "SINOWEALTH_DPI_MIN \<le> unat (800 :: c_int) \<and> unat (800 :: c_int) \<le> SINOWEALTH_DPI_MAX \<and>
   SINOWEALTH_DPI_STEP dvd unat (800 :: c_int) \<and>
   sinowealth_raw_to_dpi (sinowealth_dpi_to_raw 800) = 800 \<and>
   sinowealth_raw_to_dpi (ucast (ucast (sinowealth_dpi_to_raw 800) :: byte)) = 800"
proof -
  have h: "SINOWEALTH_DPI_MIN \<le> unat (800 :: c_int)" "unat (800 :: c_int) \<le> SINOWEALTH_DPI_MAX"
    "SINOWEALTH_DPI_STEP dvd unat (800 :: c_int)"
    by (simp_all add: SINOWEALTH_DPI_MIN_def SINOWEALTH_DPI_MAX_def SINOWEALTH_DPI_STEP_def)
  from raw_dpi_roundtrip [OF h] h show ?thesis by simp
qed

text \<open>
  C2. The list has 121 elements and starts with the sentinel 0, but the loop stores
  \<open>SINOWEALTH_DPI_MIN + i * SINOWEALTH_DPI_STEP\<close> at place \<open>i\<close>, counting from 1:
  place 1 holds 200, not 100, and place 120 holds 12100, above \<open>SINOWEALTH_DPI_MAX\<close>.
\<close>

theorem dpi_list_starts_at_200:
  "length sinowealth_dpi_list = 121 \<and> sinowealth_dpi_list ! 0 = 0 \<and>
   sinowealth_dpi_list ! 1 = 200 \<and> sinowealth_dpi_list ! 120 = 12100"
  by (simp add: dpi_list_length dpi_list_nth)

section \<open>Commit\<close>

subsection \<open>What each step of the commit leaves alone\<close>

lemma xy_independent_loop_fields [simp]:
  "dpi_enabled (xy_independent_loop rs cfg) = dpi_enabled cfg"
  "dpi (xy_independent_loop rs cfg) = dpi cfg"
  "report_arrays_ok (xy_independent_loop rs cfg) = report_arrays_ok cfg"
  by (induction rs) (simp_all add: report_arrays_ok_def)

lemma xy_independent_loop_config:
  "config (xy_independent_loop rs cfg) =
     (if \<exists>res \<in> set rs. dpi_x res \<noteq> dpi_y res \<and> dpi_x res \<noteq> 0 \<and> dpi_y res \<noteq> 0
      then config cfg AND SINOWEALTH_XY_INDEPENDENT else config cfg)"
  by (induction rs) auto

lemma commit_resolution_fields [simp]:
  "config (commit_resolution res cfg) = config cfg"
  "report_arrays_ok (commit_resolution res cfg) = report_arrays_ok cfg"
  by (simp_all add: commit_resolution_def Let_def report_arrays_ok_def)

lemma fold_commit_resolution_fields [simp]:
  "config (fold commit_resolution rs cfg) = config cfg"
  "report_arrays_ok (fold commit_resolution rs cfg) = report_arrays_ok cfg"
  by (induction rs arbitrary: cfg) simp_all

lemma commit_body_led_fields [simp]:
  "config (commit_body_led l cfg) = config cfg"
  "dpi_enabled (commit_body_led l cfg) = dpi_enabled cfg"
  "dpi (commit_body_led l cfg) = dpi cfg"
  "report_arrays_ok (commit_body_led l cfg) = report_arrays_ok cfg"
  by (simp_all add: commit_body_led_def report_arrays_ok_def split: ratbag_led_mode.split)

lemma dpi_color_update_arrays_ok [simp]:
  "report_arrays_ok (cfg\<lparr>dpi_color := (dpi_color cfg)[i := c]\<rparr>) = report_arrays_ok cfg"
  by (simp add: report_arrays_ok_def)

lemma fold_dpi_color_fields:
  "config (fold (\<lambda>i acc. acc\<lparr>dpi_color := (dpi_color acc)[F i := G i]\<rparr>) idxs cfg) = config cfg"
  "dpi_enabled (fold (\<lambda>i acc. acc\<lparr>dpi_color := (dpi_color acc)[F i := G i]\<rparr>) idxs cfg) =
     dpi_enabled cfg"
  "dpi (fold (\<lambda>i acc. acc\<lparr>dpi_color := (dpi_color acc)[F i := G i]\<rparr>) idxs cfg) = dpi cfg"
  "rgb_effect (fold (\<lambda>i acc. acc\<lparr>dpi_color := (dpi_color acc)[F i := G i]\<rparr>) idxs cfg) =
     rgb_effect cfg"
  "single_color (fold (\<lambda>i acc. acc\<lparr>dpi_color := (dpi_color acc)[F i := G i]\<rparr>) idxs cfg) =
     single_color cfg"
  "breathing1_color (fold (\<lambda>i acc. acc\<lparr>dpi_color := (dpi_color acc)[F i := G i]\<rparr>) idxs cfg) =
     breathing1_color cfg"
  "report_arrays_ok (fold (\<lambda>i acc. acc\<lparr>dpi_color := (dpi_color acc)[F i := G i]\<rparr>) idxs cfg) =
     report_arrays_ok cfg"
  by (induction idxs arbitrary: cfg) simp_all

lemma commit_dpi_leds_fields [simp]:
  "config (commit_dpi_leds ls cfg) = config cfg"
  "dpi_enabled (commit_dpi_leds ls cfg) = dpi_enabled cfg"
  "dpi (commit_dpi_leds ls cfg) = dpi cfg"
  "rgb_effect (commit_dpi_leds ls cfg) = rgb_effect cfg"
  "single_color (commit_dpi_leds ls cfg) = single_color cfg"
  "breathing1_color (commit_dpi_leds ls cfg) = breathing1_color cfg"
  "report_arrays_ok (commit_dpi_leds ls cfg) = report_arrays_ok cfg"
  by (simp_all add: commit_dpi_leds_def fold_dpi_color_fields)

subsection \<open>The device and the return value after a commit\<close>

lemma commit_device_report: "drv_data (snd (sinowealth_commit hid dev)) = commit_config dev"
  by (simp add: sinowealth_commit_def Let_def)

lemma commit_device_profile: "profile (snd (sinowealth_commit hid dev)) = profile dev"
  by (simp add: sinowealth_commit_def Let_def)

lemma commit_return:
  "fst (sinowealth_commit hid dev) =
     (if ratbag_hidraw_set_feature_report hid SINOWEALTH_REPORT_ID_CONFIG (commit_data dev) = 520
      then 0 else - 1)"
  by (simp add: sinowealth_commit_def Let_def SINOWEALTH_CONFIG_SIZE_def)

subsection \<open>The XY-independent flag\<close>

lemma commit_config_config:
  "config (commit_config dev) =
     (if \<exists>res \<in> set (resolutions (profile dev)).
           dpi_x res \<noteq> dpi_y res \<and> dpi_x res \<noteq> 0 \<and> dpi_y res \<noteq> 0
      then 0 else config (drv_data dev) AND NOT SINOWEALTH_XY_INDEPENDENT)"
proof -
  have "(w AND NOT SINOWEALTH_XY_INDEPENDENT) AND SINOWEALTH_XY_INDEPENDENT = 0" for w :: byte
    by (simp add: and.assoc)
  then show ?thesis
    by (auto simp add: commit_config_def Let_def xy_independent_loop_config)
qed

lemma commit_config_never_independent:
  "config (commit_config dev) AND SINOWEALTH_XY_INDEPENDENT = 0"
  by (simp add: commit_config_config and.assoc)

lemma example_resolutions:
  "resolutions (profile example_device) =
     [example_resolution 0 800 800, example_resolution 1 400 800,
      example_resolution 2 0 0, example_resolution 3 1600 1600,
      example_resolution 4 0 0, example_resolution 5 0 0]"
  by (simp add: example_device_def example_profile_def)

lemma example_resolution_sel [simp]:
  "index (example_resolution i x y) = i"
  "dpi_x (example_resolution i x y) = x"
  "dpi_y (example_resolution i x y) = y"
  by (simp_all add: example_resolution_def)

text \<open>
  C1. The profile holds (800, 800) and (400, 800), and the config byte is 0x05 before
  the commit. The loop finds the second resolution and executes
  \<open>config->config &= SINOWEALTH_XY_INDEPENDENT\<close> on a byte whose bit 0x80 was
  cleared the line before: the result is 0. The flag is not set, and the bits 0x05 are lost.
\<close>

theorem commit_xy_flag_cleared_with_config:
  "config (drv_data example_device) = 0x05 \<and>
   config (commit_config example_device) = 0 \<and>
   config (drv_data (snd (sinowealth_commit example_hid example_device))) AND
     SINOWEALTH_XY_INDEPENDENT = 0"
proof -
  have "config (commit_config example_device) = 0"
    by (simp add: commit_config_config example_resolutions)
  moreover have "config (drv_data example_device) = 0x05"
    by (simp add: example_device_def example_report_def)
  moreover have "drv_data (snd (sinowealth_commit example_hid example_device)) =
      commit_config example_device"
    by (simp add: sinowealth_commit_def Let_def)
  ultimately show ?thesis by simp
qed

subsection \<open>The enable mask\<close>

lemma commit_resolution_enabled_bit:
  "bit (dpi_enabled (commit_resolution res cfg)) k \<longleftrightarrow>
     bit (dpi_enabled cfg) k \<and> \<not> (index res = k \<and> dpi_x res \<noteq> 0 \<and> dpi_y res \<noteq> 0)"
  by (auto simp add: commit_resolution_def Let_def bit_and_iff bit_not_iff bit_exp_iff
        dest: bit_imp_possible_bit)

lemma fold_commit_resolution_enabled_bit:
  "bit (dpi_enabled (fold commit_resolution rs cfg)) k \<longleftrightarrow>
     bit (dpi_enabled cfg) k \<and>
     \<not> (\<exists>res \<in> set rs. index res = k \<and> dpi_x res \<noteq> 0 \<and> dpi_y res \<noteq> 0)"
  by (induction rs arbitrary: cfg) (auto simp add: commit_resolution_enabled_bit)

lemma commit_config_enabled:
  "dpi_enabled (commit_config dev) =
     dpi_enabled (fold commit_resolution (resolutions (profile dev))
       ((xy_independent_loop (resolutions (profile dev))
          ((drv_data dev)\<lparr>config := config (drv_data dev) AND NOT SINOWEALTH_XY_INDEPENDENT\<rparr>))
        \<lparr>dpi_enabled := 0xFF\<rparr>))"
  by (simp add: commit_config_def Let_def)

lemma bit_0xFF: "bit (0xFF :: int) k \<longleftrightarrow> k < 8"
  using bit_mask_iff [of 8 k, where ?'a = int] by (simp add: mask_eq_exp_minus_1)

lemma commit_config_enabled_bit:
  "bit (dpi_enabled (commit_config dev)) k \<longleftrightarrow>
     k < 8 \<and> \<not> (\<exists>res \<in> set (resolutions (profile dev)).
                   index res = k \<and> dpi_x res \<noteq> 0 \<and> dpi_y res \<noteq> 0)"
  by (auto simp add: commit_config_enabled fold_commit_resolution_enabled_bit bit_0xFF)

lemma profile_ok_indices:
  assumes "profile_ok p"
  shows "distinct (map index (resolutions p))"
    and "res \<in> set (resolutions p) \<Longrightarrow> index res < 6"
proof -
  from assms have m: "map index (resolutions p) = [0..<6]"
    by (simp add: profile_ok_def SINOWEALTH_NUM_DPIS_def)
  then show "distinct (map index (resolutions p))" by simp
  assume "res \<in> set (resolutions p)"
  then have "index res \<in> set (map index (resolutions p))" by simp
  then show "index res < 6" unfolding m by simp
qed

lemma example_profile_ok: "profile_ok (profile example_device)"
  by (simp add: profile_ok_def example_device_def example_profile_def SINOWEALTH_NUM_DPIS_def
      upt_rec)

subsection \<open>The raw DPI bytes\<close>

lemma commit_resolution_dpi_plain:
  "config cfg AND SINOWEALTH_XY_INDEPENDENT = 0 \<Longrightarrow>
   dpi (commit_resolution res cfg) =
     (dpi cfg)[index res := ucast (sinowealth_dpi_to_raw (dpi_x res))]"
  by (simp add: commit_resolution_def Let_def)

lemma fold_commit_resolution_dpi_other:
  "config cfg AND SINOWEALTH_XY_INDEPENDENT = 0 \<Longrightarrow> k \<notin> index ` set rs \<Longrightarrow>
   dpi (fold commit_resolution rs cfg) ! k = dpi cfg ! k"
  by (induction rs arbitrary: cfg) (simp_all add: commit_resolution_dpi_plain)

lemma fold_commit_resolution_dpi_length [simp]:
  "length (dpi (fold commit_resolution rs cfg)) = length (dpi cfg)"
  by (induction rs arbitrary: cfg) (simp_all add: commit_resolution_def Let_def)

lemma fold_commit_resolution_dpi_nth:
  "config cfg AND SINOWEALTH_XY_INDEPENDENT = 0 \<Longrightarrow> distinct (map index rs) \<Longrightarrow>
   res \<in> set rs \<Longrightarrow> index res < length (dpi cfg) \<Longrightarrow>
   dpi (fold commit_resolution rs cfg) ! index res =
     ucast (sinowealth_dpi_to_raw (dpi_x res))"
proof (induction rs arbitrary: cfg)
  case Nil
  then show ?case by simp
next
  case (Cons a rs)
  show ?case
  proof (cases "res = a")
    case True
    with Cons.prems show ?thesis
      by (simp add: fold_commit_resolution_dpi_other commit_resolution_dpi_plain)
  next
    case False
    with Cons.prems have "res \<in> set rs" by simp
    moreover have "length (dpi (commit_resolution a cfg)) = length (dpi cfg)"
      by (simp add: commit_resolution_def Let_def)
    ultimately show ?thesis
      using Cons.prems Cons.IH [of "commit_resolution a cfg"] by simp
  qed
qed

lemma commit_config_dpi:
  "dpi (commit_config dev) =
     dpi (fold commit_resolution (resolutions (profile dev))
       ((xy_independent_loop (resolutions (profile dev))
          ((drv_data dev)\<lparr>config := config (drv_data dev) AND NOT SINOWEALTH_XY_INDEPENDENT\<rparr>))
        \<lparr>dpi_enabled := 0xFF\<rparr>))"
  by (simp add: commit_config_def Let_def)

lemma commit_config_dpi_nth:
  assumes "profile_ok (profile dev)" and "report_arrays_ok (drv_data dev)"
    and "res \<in> set (resolutions (profile dev))"
  shows "dpi (commit_config dev) ! index res = ucast (sinowealth_dpi_to_raw (dpi_x res))"
proof -
  have "(w AND NOT SINOWEALTH_XY_INDEPENDENT) AND SINOWEALTH_XY_INDEPENDENT = 0" for w :: byte
    by (simp add: and.assoc)
  then have plain: "config ((xy_independent_loop (resolutions (profile dev))
          ((drv_data dev)\<lparr>config := config (drv_data dev) AND NOT SINOWEALTH_XY_INDEPENDENT\<rparr>))
        \<lparr>dpi_enabled := 0xFF\<rparr>) AND SINOWEALTH_XY_INDEPENDENT = 0"
    by (simp add: xy_independent_loop_config and.assoc)
  have "index res < 6"
    using assms(1,3) by (rule profile_ok_indices)
  moreover have "length (dpi (drv_data dev)) = 16"
    using assms(2) by (simp add: report_arrays_ok_def)
  ultimately have "index res < length (dpi ((xy_independent_loop (resolutions (profile dev))
          ((drv_data dev)\<lparr>config := config (drv_data dev) AND NOT SINOWEALTH_XY_INDEPENDENT\<rparr>))
        \<lparr>dpi_enabled := 0xFF\<rparr>))"
    by simp
  with plain profile_ok_indices(1) [OF assms(1)] assms(3) show ?thesis
    unfolding commit_config_dpi by (rule fold_commit_resolution_dpi_nth)
qed

lemma dpi_to_raw_0: "(ucast (sinowealth_dpi_to_raw 0) :: byte) = 0xFF"
  by code_simp

lemma dpi_to_raw_0_sint: "sint (sinowealth_dpi_to_raw 0) = - 1"
  by (simp add: sinowealth_dpi_to_raw_def)

subsection \<open>The buffer\<close>

lemma length_concat_RGB8_bytes: "length (concat (map RGB8_bytes cs)) = 3 * length cs"
  by (induction cs) (simp_all add: RGB8_bytes_def)

lemma length_config_report_bytes:
  "report_arrays_ok cfg \<Longrightarrow> length (config_report_bytes cfg) = sizeof_config_report"
  by (simp add: report_arrays_ok_def config_report_bytes_def sizeof_config_report_def
      length_concat_RGB8_bytes RGB8_bytes_def)

lemma config_report_bytes_write_magic: "config_report_bytes cfg ! 3 = config_write cfg"
  by (simp add: config_report_bytes_def)

lemma config_report_bytes_dpi:
  assumes "report_arrays_ok cfg" and "i < 16"
  shows "config_report_bytes cfg ! (13 + i) = dpi cfg ! i"
proof -
  have "config_report_bytes cfg =
      ([report_id cfg, command_id cfg, unk1 cfg, config_write cfg] @ unk2 cfg @
       [config cfg, ucast (dpi_count cfg) OR push_bit 4 (ucast (active_dpi cfg)),
        dpi_enabled cfg]) @ dpi cfg @ drop 29 (config_report_bytes cfg)"
    using assms(1) by (simp add: config_report_bytes_def report_arrays_ok_def)
  moreover have "length ([report_id cfg, command_id cfg, unk1 cfg, config_write cfg] @ unk2 cfg @
       [config cfg, ucast (dpi_count cfg) OR push_bit 4 (ucast (active_dpi cfg)),
        dpi_enabled cfg]) = 13"
    using assms(1) by (simp add: report_arrays_ok_def)
  ultimately show ?thesis
    using assms by (metis (no_types, lifting) nth_append_length_plus nth_append report_arrays_ok_def)
qed

lemma report_arrays_ok_updates [simp]:
  "report_arrays_ok (cfg\<lparr>config := x\<rparr>) = report_arrays_ok cfg"
  "report_arrays_ok (cfg\<lparr>dpi_enabled := y\<rparr>) = report_arrays_ok cfg"
  "report_arrays_ok (cfg\<lparr>config_write := z\<rparr>) = report_arrays_ok cfg"
  by (simp_all add: report_arrays_ok_def)

lemma commit_config_arrays_ok:
  "report_arrays_ok (commit_config dev) = report_arrays_ok (drv_data dev)"
  by (simp add: commit_config_def Let_def)

lemma commit_config_write_magic: "config_write (commit_config dev) = 0x7b"
  by (simp add: commit_config_def Let_def)

lemma commit_data_eq:
  "report_arrays_ok (drv_data dev) \<Longrightarrow>
   commit_data dev = config_report_bytes (commit_config dev) @ replicate 423 0"
  by (simp add: commit_data_def memcpy_def zalloc_def SINOWEALTH_CONFIG_SIZE_def
      length_config_report_bytes commit_config_arrays_ok sizeof_config_report_def)

lemma example_report_arrays_ok: "report_arrays_ok (drv_data example_device)"
  by (simp add: report_arrays_ok_def example_device_def example_report_def)

text \<open>
  C9. The buffer written by a commit has 520 bytes; its first 97 are the report, with
  0x7b at the place of \<open>config_write\<close>; all bytes after the report are zero; and the
  commit returns 0 exactly when the transport returns 520, and \<open>-1\<close> otherwise.
\<close>

theorem commit_buffer:
  assumes "report_arrays_ok (drv_data dev)"
  shows "length (commit_data dev) = 520 \<and>
         commit_data dev ! 3 = 0x7b \<and>
         config_write (commit_config dev) = 0x7b \<and>
         take sizeof_config_report (commit_data dev) = config_report_bytes (commit_config dev) \<and>
         (\<forall>k. sizeof_config_report \<le> k \<and> k < 520 \<longrightarrow> commit_data dev ! k = 0) \<and>
         fst (sinowealth_commit hid dev) =
           (if ratbag_hidraw_set_feature_report hid SINOWEALTH_REPORT_ID_CONFIG (commit_data dev)
               = 520
            then 0 else - 1)"
proof -
  let ?bs = "config_report_bytes (commit_config dev)"
  have len: "length ?bs = 97"
    using assms
    by (simp add: length_config_report_bytes [unfolded sizeof_config_report_def]
        commit_config_arrays_ok)
  have data: "commit_data dev = ?bs @ replicate 423 0"
    using assms by (rule commit_data_eq)
  have "length (commit_data dev) = 520"
    by (simp add: data len)
  moreover have "commit_data dev ! 3 = 0x7b"
    by (simp add: data len nth_append config_report_bytes_write_magic
        commit_config_write_magic)
  moreover have "take sizeof_config_report (commit_data dev) = ?bs"
    by (simp add: data len sizeof_config_report_def)
  moreover have "\<forall>k. sizeof_config_report \<le> k \<and> k < 520 \<longrightarrow> commit_data dev ! k = 0"
    by (auto simp add: data len nth_append sizeof_config_report_def)
  moreover have "fst (sinowealth_commit hid dev) =
           (if ratbag_hidraw_set_feature_report hid SINOWEALTH_REPORT_ID_CONFIG (commit_data dev)
               = 520
            then 0 else - 1)"
    by (simp add: sinowealth_commit_def Let_def SINOWEALTH_CONFIG_SIZE_def)
  ultimately show ?thesis
    by (simp add: commit_config_write_magic)
qed

theorem commit_buffer_witness:
  "report_arrays_ok (drv_data example_device) \<and>
   length (commit_data example_device) = 520 \<and>
   commit_data example_device ! 3 = 0x7b \<and>
   commit_data example_device ! 97 = 0 \<and>
   commit_data example_device ! 519 = 0 \<and>
   fst (sinowealth_commit example_hid example_device) = 0"
proof -
  note c = commit_buffer [OF example_report_arrays_ok, of example_hid]
  have "ratbag_hidraw_set_feature_report example_hid SINOWEALTH_REPORT_ID_CONFIG
          (commit_data example_device) = 520"
    using c by (simp add: example_hid_def)
  moreover have "commit_data example_device ! 97 = 0" "commit_data example_device ! 519 = 0"
    using c by (simp_all add: sizeof_config_report_def)
  ultimately show ?thesis
    using c example_report_arrays_ok by simp
qed

text \<open>
  C10. A resolution with \<open>dpi_x = 0\<close> still has its raw byte written: in the report
  that \<open>sinowealth_commit\<close> leaves in the device, and in the buffer it hands to the
  transport (the buffer that decides its return value), \<open>dpi[index]\<close> holds
  \<open>sinowealth_dpi_to_raw 0\<close>, which is \<open>-1\<close>, cut to the byte 0xFF, and the slot's
  bit is set in the enable mask. For every resolution, disabled or not, the byte holds
  the raw value of its \<open>dpi_x\<close> after the commit, whatever it held before.
\<close>

theorem commit_disabled_slot_raw:
  assumes "profile_ok (profile dev)" and "report_arrays_ok (drv_data dev)"
    and "res \<in> set (resolutions (profile dev))"
  shows "dpi (drv_data (snd (sinowealth_commit hid dev))) ! index res =
           ucast (sinowealth_dpi_to_raw (dpi_x res)) \<and>
         commit_data dev ! (13 + index res) =
           dpi (drv_data (snd (sinowealth_commit hid dev))) ! index res \<and>
         fst (sinowealth_commit hid dev) =
           (if ratbag_hidraw_set_feature_report hid SINOWEALTH_REPORT_ID_CONFIG (commit_data dev)
               = 520
            then 0 else - 1) \<and>
         (dpi_x res = 0 \<longrightarrow>
            sint (sinowealth_dpi_to_raw (dpi_x res)) = - 1 \<and>
            dpi (drv_data (snd (sinowealth_commit hid dev))) ! index res = 0xFF \<and>
            commit_data dev ! (13 + index res) = 0xFF \<and>
            bit (dpi_enabled (drv_data (snd (sinowealth_commit hid dev)))) (index res))"
proof -
  have i: "index res < 6"
    using assms(1,3) by (rule profile_ok_indices)
  have raw: "dpi (commit_config dev) ! index res = ucast (sinowealth_dpi_to_raw (dpi_x res))"
    using assms by (rule commit_config_dpi_nth)
  have ok': "report_arrays_ok (commit_config dev)"
    using assms(2) by (simp add: commit_config_arrays_ok)
  have "13 + index res < length (config_report_bytes (commit_config dev))"
    using i ok' by (simp add: length_config_report_bytes sizeof_config_report_def)
  then have "commit_data dev ! (13 + index res) =
      config_report_bytes (commit_config dev) ! (13 + index res)"
    using assms(2) by (simp add: commit_data_eq nth_append)
  also have "\<dots> = dpi (commit_config dev) ! index res"
    using ok' i by (simp add: config_report_bytes_dpi)
  finally have buf: "commit_data dev ! (13 + index res) = dpi (commit_config dev) ! index res" .
  have mask: "bit (dpi_enabled (commit_config dev)) (index res)" if "dpi_x res = 0"
  proof -
    have "res' = res" if "res' \<in> set (resolutions (profile dev))" "index res' = index res" for res'
      using that assms(3) profile_ok_indices(1) [OF assms(1)]
      by (simp add: distinct_map inj_on_def)
    with that i show ?thesis
      by (auto simp add: commit_config_enabled_bit)
  qed
  have rc: "fst (sinowealth_commit hid dev) =
           (if ratbag_hidraw_set_feature_report hid SINOWEALTH_REPORT_ID_CONFIG (commit_data dev)
               = 520
            then 0 else - 1)"
    by (rule commit_return)
  show ?thesis
    unfolding commit_device_report
    using raw buf mask rc by (simp add: dpi_to_raw_0 dpi_to_raw_0_sint)
qed

theorem commit_disabled_slot_raw_witness:
  "profile_ok (profile example_device) \<and> report_arrays_ok (drv_data example_device) \<and>
   dpi_x (example_resolution 2 0 0) = 0 \<and>
   dpi (drv_data example_device) ! 2 = 15 \<and>
   dpi (drv_data (snd (sinowealth_commit example_hid example_device))) ! 2 = 0xFF \<and>
   commit_data example_device ! 15 = 0xFF \<and>
   fst (sinowealth_commit example_hid example_device) = 0 \<and>
   bit (dpi_enabled (drv_data (snd (sinowealth_commit example_hid example_device)))) 2"
proof -
  have mem: "example_resolution 2 0 0 \<in> set (resolutions (profile example_device))"
    by (simp add: example_resolutions)
  have before: "dpi (drv_data example_device) ! 2 = 15"
    by (simp add: example_device_def example_report_def)
  have len: "length (commit_data example_device) = 520"
    by (simp add: commit_data_eq [OF example_report_arrays_ok] length_config_report_bytes
        commit_config_arrays_ok example_report_arrays_ok sizeof_config_report_def)
  have accepted: "ratbag_hidraw_set_feature_report example_hid SINOWEALTH_REPORT_ID_CONFIG
      (commit_data example_device) = 520"
    by (simp add: example_hid_def len)
  show ?thesis
    using commit_disabled_slot_raw
        [OF example_profile_ok example_report_arrays_ok mem, of example_hid]
      example_profile_ok example_report_arrays_ok before accepted
    by (simp add: dpi_to_raw_0)
qed

section \<open>Read\<close>

subsection \<open>The return value\<close>

lemma read_profile_success:
  assumes "fst (sinowealth_read_profile hid dev) = 0"
  shows "profile (snd (sinowealth_read_profile hid dev)) =
           populate_profile (drv_data (snd (sinowealth_read_profile hid dev))) (profile dev)"
  using assms
  by (auto simp add: sinowealth_read_profile_def Let_def split: prod.splits if_splits)

lemma scast_small:
  fixes rc :: c_int
  assumes "0 \<le> sint rc" and "sint rc < 97"
  shows "(scast rc :: c_size_t) < 97"
proof -
  have "sint rc < 2 ^ 64"
    using assms(2) by (rule less_trans) simp
  with assms(1) have "take_bit 64 (sint rc) = sint rc"
    by (rule take_bit_int_eq_self)
  moreover have "uint (scast rc :: c_size_t) = take_bit 64 (sint rc)"
    by (simp only: scast_eq uint_word_of_int_eq) simp
  ultimately have "uint (scast rc :: c_size_t) < 97"
    using assms(2) by (simp only:)
  then show ?thesis
    by (simp add: word_less_alt)
qed

text \<open>
  The short reads that the check does catch: a return value from 0 to 96 makes the read
  fail with \<open>-1\<close> and leaves the device alone.
\<close>

lemma read_profile_short:
  assumes "ratbag_hidraw_set_feature_report hid SINOWEALTH_REPORT_ID_CMD
             [SINOWEALTH_REPORT_ID_CMD, SINOWEALTH_CMD_GET_CONFIG, 0, 0, 0, 0] = 6"
    and "ratbag_hidraw_get_feature_report hid SINOWEALTH_REPORT_ID_CONFIG
             (zalloc SINOWEALTH_CONFIG_SIZE) = (rc, data)"
    and "0 \<le> sint rc" and "sint rc < 97"
  shows "sinowealth_read_profile hid dev = (- 1, dev)"
  using assms(1,2) scast_small [OF assms(3,4)]
  by (simp add: sinowealth_read_profile_def Let_def sizeof_config_report_def)

lemma populate_profile_fields:
  "resolutions (populate_profile cfg p) =
     map (read_resolution cfg sinowealth_dpi_list) (resolutions p)"
  "profile_is_active (populate_profile cfg p)"
  "leds (populate_profile cfg p) =
     read_dpi_leds cfg ((leds p)[0 := read_body_led cfg (leds p ! 0)])"
  by (simp_all add: populate_profile_def Let_def ratbag_profile_set_report_rate_def
      ratbag_profile_set_report_rate_list_def)

lemma fold_update_nth_0:
  "0 \<notin> set idxs \<Longrightarrow> fold (\<lambda>i acc. acc[i := F i (acc ! i)]) idxs ls ! 0 = ls ! 0"
  by (induction idxs arbitrary: ls) simp_all

lemma populate_profile_body_led:
  assumes "leds p \<noteq> []"
  shows "leds (populate_profile cfg p) ! 0 = read_body_led cfg (leds p ! 0)"
proof -
  have "0 \<notin> set [1..<SINOWEALTH_NUM_DPIS + 1]" by simp
  then show ?thesis
    using assms
    by (simp add: populate_profile_fields read_dpi_leds_def fold_update_nth_0)
qed

text \<open>
  C3. The transport read returns \<open>-5\<close> and leaves the zeroed buffer as it is. In
  \<open>rc < sizeof(*config)\<close> the \<open>int\<close> is converted to \<open>size_t\<close>, where \<open>-5\<close> is
  far above 97: the check passes, the read returns 0, and the profile is populated
  from the zero bytes (the body LED, cycling before, is now off; the profile is active).
\<close>

theorem read_profile_negative_rc_accepted:
  "sint (fst (ratbag_hidraw_get_feature_report failing_hid SINOWEALTH_REPORT_ID_CONFIG
            (zalloc SINOWEALTH_CONFIG_SIZE))) = - 5 \<and>
   fst (sinowealth_read_profile failing_hid example_device) = 0 \<and>
   mode (leds (profile example_device) ! 0) = RATBAG_LED_CYCLE \<and>
   mode (leds (profile (snd (sinowealth_read_profile failing_hid example_device))) ! 0) =
     RATBAG_LED_OFF \<and>
   profile_is_active (profile (snd (sinowealth_read_profile failing_hid example_device)))"
proof -
  have rc: "sint (fst (ratbag_hidraw_get_feature_report failing_hid SINOWEALTH_REPORT_ID_CONFIG
            (zalloc SINOWEALTH_CONFIG_SIZE))) = - 5"
    by (simp add: failing_hid_def)
  have ok: "fst (sinowealth_read_profile failing_hid example_device) = 0"
    by (simp add: sinowealth_read_profile_def failing_hid_def Let_def sizeof_config_report_def)
  have cfg: "drv_data (snd (sinowealth_read_profile failing_hid example_device)) =
      config_report_of_bytes (take sizeof_config_report (zalloc SINOWEALTH_CONFIG_SIZE))"
    by (simp add: sinowealth_read_profile_def failing_hid_def Let_def sizeof_config_report_def)
  have eff: "rgb_effect (config_report_of_bytes
      (take sizeof_config_report (zalloc SINOWEALTH_CONFIG_SIZE))) = RGB_OFF"
    by (simp add: config_report_of_bytes_def sizeof_config_report_def zalloc_def
        SINOWEALTH_CONFIG_SIZE_def RGB_OFF_def)
  have before: "mode (leds (profile example_device) ! 0) = RATBAG_LED_CYCLE"
    "leds (profile example_device) \<noteq> []"
    by (simp_all add: example_device_def example_profile_def example_led_def)
  have "mode (leds (profile (snd (sinowealth_read_profile failing_hid example_device))) ! 0) =
     RATBAG_LED_OFF"
    by (simp add: read_profile_success [OF ok] cfg populate_profile_body_led before(2)
        read_body_led_def eff Let_def)
  moreover have
    "profile_is_active (profile (snd (sinowealth_read_profile failing_hid example_device)))"
    by (simp add: read_profile_success [OF ok] populate_profile_fields)
  ultimately show ?thesis
    using rc ok before(1) by simp
qed

subsection \<open>The resolutions\<close>

lemma enabled_test:
  "(dpi_enabled cfg AND push_bit n 1 \<noteq> 0) = bit (dpi_enabled cfg) n"
  by (simp only: bit_iff_and_push_bit_not_eq_0)

lemma read_resolution_index [simp]:
  "index (read_resolution cfg dl res) = index res"
  by (simp add: read_resolution_def Let_def ratbag_resolution_set_cap_def
      ratbag_resolution_set_dpi_list_def)

lemma read_resolution_dpi:
  "dpi_x (read_resolution cfg dl res) =
     (if bit (dpi_enabled cfg) (index res) then 0
      else if config cfg AND SINOWEALTH_XY_INDEPENDENT \<noteq> 0
        then sinowealth_raw_to_dpi (ucast (dpi cfg ! (index res * 2)))
        else sinowealth_raw_to_dpi (ucast (dpi cfg ! index res)))"
  "dpi_y (read_resolution cfg dl res) =
     (if bit (dpi_enabled cfg) (index res) then 0
      else if config cfg AND SINOWEALTH_XY_INDEPENDENT \<noteq> 0
        then sinowealth_raw_to_dpi (ucast (dpi cfg ! (index res * 2 + 1)))
        else sinowealth_raw_to_dpi (ucast (dpi cfg ! index res)))"
  unfolding read_resolution_def Let_def ratbag_resolution_set_cap_def
    ratbag_resolution_set_dpi_list_def enabled_test
  by simp_all

lemma read_resolution_active:
  "is_active (read_resolution cfg dl res) =
     (of_nat (index res) = (ucast (active_dpi cfg) :: c_int) - 1)"
  "is_default (read_resolution cfg dl res) = is_active (read_resolution cfg dl res)"
  by (simp_all add: read_resolution_def Let_def ratbag_resolution_set_cap_def
      ratbag_resolution_set_dpi_list_def)

lemma active_index_compare:
  fixes a :: "4 word"
  assumes "i < 6"
  shows "((of_nat i :: c_int) = ucast a - 1) = (int i = uint a - 1)"
proof -
  have a: "unat a < 16"
    using unsigned_less [of a, where ?'a = nat] by simp
  have "((of_nat i :: c_int) = ucast a - 1) = ((of_nat i :: c_int) + 1 = ucast a)"
    by (simp only: eq_diff_eq)
  also have "\<dots> = ((of_nat (i + 1) :: c_int) = of_nat (unat a))"
    by (simp add: of_nat_unat add.commute)
  also have "\<dots> = (take_bit 32 (i + 1) = take_bit 32 (unat a))"
    by (simp only: word_of_nat_eq_iff) simp
  also have "\<dots> = (i + 1 = unat a)"
  proof -
    have "i + 1 < 2 ^ 32" "unat a < 2 ^ 32"
      using assms a by simp_all
    then show ?thesis
      by (simp only: take_bit_nat_eq_self)
  qed
  also have "\<dots> = (int i = uint a - 1)"
    unfolding uint_nat by arith
  finally show ?thesis .
qed

lemma read_profile_resolutions:
  assumes "fst (sinowealth_read_profile hid dev) = 0"
  shows "resolutions (profile (snd (sinowealth_read_profile hid dev))) =
           map (read_resolution (drv_data (snd (sinowealth_read_profile hid dev)))
                  sinowealth_dpi_list)
               (resolutions (profile dev))"
  by (simp add: read_profile_success [OF assms] populate_profile_fields)

subsection \<open>The example read\<close>

lemma example_read_ok: "fst (sinowealth_read_profile example_hid example_device) = 0"
  by (simp add: sinowealth_read_profile_def example_hid_def Let_def sizeof_config_report_def)

lemma example_read_report:
  "drv_data (snd (sinowealth_read_profile example_hid example_device)) =
     config_report_of_bytes (take sizeof_config_report example_data)"
  by (simp add: sinowealth_read_profile_def example_hid_def Let_def sizeof_config_report_def)

lemma example_report_fields:
  "config (config_report_of_bytes (take sizeof_config_report example_data)) = 0"
  "active_dpi (config_report_of_bytes (take sizeof_config_report example_data)) = 2"
  "dpi_enabled (config_report_of_bytes (take sizeof_config_report example_data)) = 1"
  "dpi (config_report_of_bytes (take sizeof_config_report example_data)) ! 0 = 7"
  "dpi (config_report_of_bytes (take sizeof_config_report example_data)) ! 1 = 15"
  "rgb_effect (config_report_of_bytes (take sizeof_config_report example_data)) = RGB_WAVE"
  by (simp_all add: config_report_of_bytes_def sizeof_config_report_def example_data_def
      zalloc_def SINOWEALTH_CONFIG_SIZE_def RGB_WAVE_def)

lemma example_read_resolution_nth:
  assumes "i < 6"
  shows "resolutions (profile (snd (sinowealth_read_profile example_hid example_device))) ! i =
     read_resolution (config_report_of_bytes (take sizeof_config_report example_data))
       sinowealth_dpi_list (resolutions (profile example_device) ! i)"
proof -
  have "i < length (resolutions (profile example_device))"
    using assms by (simp add: example_resolutions)
  then show ?thesis
    by (simp add: read_profile_resolutions [OF example_read_ok] example_read_report)
qed

lemma example_read_length:
  "length (resolutions (profile (snd (sinowealth_read_profile example_hid example_device)))) = 6"
  by (simp add: read_profile_resolutions [OF example_read_ok] example_resolutions)

lemma example_read_slot_0:
  "index (resolutions (profile (snd (sinowealth_read_profile example_hid example_device))) ! 0) = 0"
  "dpi_x (resolutions (profile (snd (sinowealth_read_profile example_hid example_device))) ! 0) = 0"
  "dpi_y (resolutions (profile (snd (sinowealth_read_profile example_hid example_device))) ! 0) = 0"
  by (simp_all add: example_read_resolution_nth example_resolutions read_resolution_dpi
      example_report_fields)

lemma example_read_slot_1:
  "index (resolutions (profile (snd (sinowealth_read_profile example_hid example_device))) ! 1) = 1"
  by (simp add: example_read_resolution_nth example_resolutions)

text \<open>
  C4. With the profile of the probe, the enable mask that \<open>sinowealth_commit\<close> leaves
  in the device has, for every
  resolution, bit \<open>index\<close> clear exactly when both axes are nonzero; the bits of the
  two slots without a resolution stay set, as the mask starts from 0xFF. After a read,
  a resolution whose bit is set in \<open>dpi_enabled\<close> has both axes 0, whatever the raw
  bytes are.
\<close>

theorem enable_mask_inverted:
  assumes "profile_ok (profile dev)"
  shows "(\<forall>res \<in> set (resolutions (profile dev)).
            (\<not> bit (dpi_enabled (drv_data (snd (sinowealth_commit hid dev)))) (index res)) =
            (dpi_x res \<noteq> 0 \<and> dpi_y res \<noteq> 0)) \<and>
         (\<forall>k. k < 8 \<and> k \<notin> index ` set (resolutions (profile dev)) \<longrightarrow>
            bit (dpi_enabled (drv_data (snd (sinowealth_commit hid dev)))) k) \<and>
         (fst (sinowealth_read_profile hid dev) = 0 \<longrightarrow>
            (\<forall>res \<in> set (resolutions (profile (snd (sinowealth_read_profile hid dev)))).
               bit (dpi_enabled (drv_data (snd (sinowealth_read_profile hid dev)))) (index res) \<longrightarrow>
               dpi_x res = 0 \<and> dpi_y res = 0))"
  unfolding commit_device_report
proof (intro conjI ballI allI impI)
  fix res
  assume mem: "res \<in> set (resolutions (profile dev))"
  have i: "index res < 6"
    using assms mem by (rule profile_ok_indices)
  have same: "res' = res"
    if "res' \<in> set (resolutions (profile dev))" "index res' = index res" for res'
    using that mem profile_ok_indices(1) [OF assms] by (simp add: distinct_map inj_on_def)
  show "(\<not> bit (dpi_enabled (commit_config dev)) (index res)) =
          (dpi_x res \<noteq> 0 \<and> dpi_y res \<noteq> 0)"
    using i mem same by (auto simp add: commit_config_enabled_bit)
next
  fix k
  assume "k < 8 \<and> k \<notin> index ` set (resolutions (profile dev))"
  then show "bit (dpi_enabled (commit_config dev)) k"
    by (auto simp add: commit_config_enabled_bit)
next
  fix res
  assume ok: "fst (sinowealth_read_profile hid dev) = 0"
    and mem: "res \<in> set (resolutions (profile (snd (sinowealth_read_profile hid dev))))"
    and dis: "bit (dpi_enabled (drv_data (snd (sinowealth_read_profile hid dev)))) (index res)"
  from mem obtain res0 where
    "res = read_resolution (drv_data (snd (sinowealth_read_profile hid dev)))
             sinowealth_dpi_list res0"
    by (auto simp add: read_profile_resolutions [OF ok])
  with dis show "dpi_x res = 0" "dpi_y res = 0"
    by (simp_all add: read_resolution_dpi)
qed

theorem enable_mask_inverted_witness:
  "profile_ok (profile example_device) \<and>
   \<not> bit (dpi_enabled (drv_data (snd (sinowealth_commit example_hid example_device)))) 0 \<and>
   \<not> bit (dpi_enabled (drv_data (snd (sinowealth_commit example_hid example_device)))) 1 \<and>
   bit (dpi_enabled (drv_data (snd (sinowealth_commit example_hid example_device)))) 2 \<and>
   bit (dpi_enabled (drv_data (snd (sinowealth_commit example_hid example_device)))) 7 \<and>
   fst (sinowealth_read_profile example_hid example_device) = 0 \<and>
   bit (dpi_enabled (drv_data (snd (sinowealth_read_profile example_hid example_device)))) 0 \<and>
   dpi (drv_data (snd (sinowealth_read_profile example_hid example_device))) ! 0 = 7 \<and>
   dpi_x (resolutions (profile (snd (sinowealth_read_profile example_hid example_device))) ! 0) = 0 \<and>
   dpi_y (resolutions (profile (snd (sinowealth_read_profile example_hid example_device))) ! 0) = 0"
proof -
  note t = enable_mask_inverted [OF example_profile_ok, of example_hid,
    unfolded commit_device_report]
  from t have commit:
    "\<And>res. res \<in> set (resolutions (profile example_device)) \<Longrightarrow>
       (\<not> bit (dpi_enabled (commit_config example_device)) (index res)) =
       (dpi_x res \<noteq> 0 \<and> dpi_y res \<noteq> 0)"
    by blast
  from t have rest:
    "\<And>k. k < 8 \<Longrightarrow> k \<notin> index ` set (resolutions (profile example_device)) \<Longrightarrow>
       bit (dpi_enabled (commit_config example_device)) k"
    by blast
  from t example_read_ok have read:
    "\<And>res. res \<in> set (resolutions (profile
         (snd (sinowealth_read_profile example_hid example_device)))) \<Longrightarrow>
       bit (dpi_enabled (drv_data (snd (sinowealth_read_profile example_hid example_device))))
         (index res) \<Longrightarrow>
       dpi_x res = 0 \<and> dpi_y res = 0"
    by blast
  have b0: "\<not> bit (dpi_enabled (commit_config example_device)) 0"
    using commit [of "example_resolution 0 800 800"] by (simp add: example_resolutions)
  have b1: "\<not> bit (dpi_enabled (commit_config example_device)) 1"
    using commit [of "example_resolution 1 400 800"] by (simp add: example_resolutions)
  have b2: "bit (dpi_enabled (commit_config example_device)) 2"
    using commit [of "example_resolution 2 0 0"] by (simp add: example_resolutions)
  have b7: "bit (dpi_enabled (commit_config example_device)) 7"
    using rest [of 7] by (simp add: example_resolutions)
  have dis: "bit (dpi_enabled (drv_data
      (snd (sinowealth_read_profile example_hid example_device)))) 0"
    by (simp add: example_read_report example_report_fields)
  have raw: "dpi (drv_data (snd (sinowealth_read_profile example_hid example_device))) ! 0 = 7"
    by (simp add: example_read_report example_report_fields)
  have "resolutions (profile (snd (sinowealth_read_profile example_hid example_device))) ! 0
      \<in> set (resolutions (profile (snd (sinowealth_read_profile example_hid example_device))))"
    by (rule nth_mem) (simp add: example_read_length)
  from read [OF this] dis have
    "dpi_x (resolutions (profile
        (snd (sinowealth_read_profile example_hid example_device))) ! 0) = 0 \<and>
     dpi_y (resolutions (profile
        (snd (sinowealth_read_profile example_hid example_device))) ! 0) = 0"
    by (simp add: example_read_slot_0(1))
  with b0 b1 b2 b7 dis raw example_profile_ok example_read_ok show ?thesis
    unfolding commit_device_report by simp
qed

text \<open>
  C5, as the claim states it, at a disabled slot: the device answers with the
  XY-independent bit clear, \<open>dpi[0] = 7\<close> (800 DPI) and bit 0 of \<open>dpi_enabled\<close> set.
  Slot 0 is read as (0, 0), not as the 800 its raw byte converts to.
\<close>

theorem read_slot_disabled_counterexample:
  "fst (sinowealth_read_profile example_hid example_device) = 0 \<and>
   config (drv_data (snd (sinowealth_read_profile example_hid example_device))) AND
     SINOWEALTH_XY_INDEPENDENT = 0 \<and>
   index (resolutions (profile (snd (sinowealth_read_profile example_hid example_device))) ! 0) = 0 \<and>
   sinowealth_raw_to_dpi
     (ucast (dpi (drv_data (snd (sinowealth_read_profile example_hid example_device))) ! 0)) = 800 \<and>
   dpi_x (resolutions (profile (snd (sinowealth_read_profile example_hid example_device))) ! 0) = 0 \<and>
   dpi_x (resolutions (profile (snd (sinowealth_read_profile example_hid example_device))) ! 0) \<noteq>
     sinowealth_raw_to_dpi
       (ucast (dpi (drv_data (snd (sinowealth_read_profile example_hid example_device))) ! 0))"
  by (simp add: example_read_ok example_read_slot_0 example_read_report example_report_fields
      sinowealth_raw_to_dpi_def)

text \<open>
  C5, amended. After a successful read, the resolution at each place of the profile
  keeps its index, and for its slot: if the slot's bit in \<open>dpi_enabled\<close> is set, both
  axes are 0; otherwise, if the XY-independent bit of the config byte is set,
  \<open>dpi_x\<close> comes from raw byte \<open>dpi[2 * slot]\<close> and \<open>dpi_y\<close> from
  \<open>dpi[2 * slot + 1]\<close>; otherwise both come from \<open>dpi[slot]\<close>.
\<close>

theorem read_slot_dpi:
  assumes "fst (sinowealth_read_profile hid dev) = 0"
    and "i < length (resolutions (profile dev))"
  shows
    "index (resolutions (profile (snd (sinowealth_read_profile hid dev))) ! i) =
       index (resolutions (profile dev) ! i) \<and>
     (bit (dpi_enabled (drv_data (snd (sinowealth_read_profile hid dev))))
          (index (resolutions (profile dev) ! i)) \<longrightarrow>
        dpi_x (resolutions (profile (snd (sinowealth_read_profile hid dev))) ! i) = 0 \<and>
        dpi_y (resolutions (profile (snd (sinowealth_read_profile hid dev))) ! i) = 0) \<and>
     (\<not> bit (dpi_enabled (drv_data (snd (sinowealth_read_profile hid dev))))
          (index (resolutions (profile dev) ! i)) \<and>
      config (drv_data (snd (sinowealth_read_profile hid dev))) AND SINOWEALTH_XY_INDEPENDENT \<noteq> 0 \<longrightarrow>
        dpi_x (resolutions (profile (snd (sinowealth_read_profile hid dev))) ! i) =
          sinowealth_raw_to_dpi (ucast (dpi (drv_data (snd (sinowealth_read_profile hid dev))) !
            (index (resolutions (profile dev) ! i) * 2))) \<and>
        dpi_y (resolutions (profile (snd (sinowealth_read_profile hid dev))) ! i) =
          sinowealth_raw_to_dpi (ucast (dpi (drv_data (snd (sinowealth_read_profile hid dev))) !
            (index (resolutions (profile dev) ! i) * 2 + 1)))) \<and>
     (\<not> bit (dpi_enabled (drv_data (snd (sinowealth_read_profile hid dev))))
          (index (resolutions (profile dev) ! i)) \<and>
      config (drv_data (snd (sinowealth_read_profile hid dev))) AND SINOWEALTH_XY_INDEPENDENT = 0 \<longrightarrow>
        dpi_x (resolutions (profile (snd (sinowealth_read_profile hid dev))) ! i) =
          sinowealth_raw_to_dpi (ucast (dpi (drv_data (snd (sinowealth_read_profile hid dev))) !
            index (resolutions (profile dev) ! i))) \<and>
        dpi_y (resolutions (profile (snd (sinowealth_read_profile hid dev))) ! i) =
          sinowealth_raw_to_dpi (ucast (dpi (drv_data (snd (sinowealth_read_profile hid dev))) !
            index (resolutions (profile dev) ! i))))"
proof -
  have "resolutions (profile (snd (sinowealth_read_profile hid dev))) ! i =
      read_resolution (drv_data (snd (sinowealth_read_profile hid dev))) sinowealth_dpi_list
        (resolutions (profile dev) ! i)"
    using assms(2) by (simp add: read_profile_resolutions [OF assms(1)])
  then show ?thesis
    by (simp add: read_resolution_dpi)
qed

theorem read_slot_dpi_witness:
  "fst (sinowealth_read_profile example_hid example_device) = 0 \<and>
   1 < length (resolutions (profile example_device)) \<and>
   index (resolutions (profile example_device) ! 1) = 1 \<and>
   \<not> bit (dpi_enabled (drv_data (snd (sinowealth_read_profile example_hid example_device)))) 1 \<and>
   config (drv_data (snd (sinowealth_read_profile example_hid example_device))) AND
     SINOWEALTH_XY_INDEPENDENT = 0 \<and>
   dpi (drv_data (snd (sinowealth_read_profile example_hid example_device))) ! 1 = 15 \<and>
   dpi_x (resolutions (profile (snd (sinowealth_read_profile example_hid example_device))) ! 1) = 1600 \<and>
   dpi_y (resolutions (profile (snd (sinowealth_read_profile example_hid example_device))) ! 1) = 1600"
proof -
  have len: "1 < length (resolutions (profile example_device))"
    by (simp add: example_resolutions)
  have idx: "index (resolutions (profile example_device) ! 1) = 1"
    by (simp add: example_resolutions)
  have en: "\<not> bit (dpi_enabled (drv_data
      (snd (sinowealth_read_profile example_hid example_device)))) 1"
    by (simp add: example_read_report example_report_fields)
  have plain: "config (drv_data (snd (sinowealth_read_profile example_hid example_device))) AND
     SINOWEALTH_XY_INDEPENDENT = 0"
    by (simp add: example_read_report example_report_fields)
  have raw: "dpi (drv_data (snd (sinowealth_read_profile example_hid example_device))) ! 1 = 15"
    by (simp add: example_read_report example_report_fields(5) [simplified])
  from read_slot_dpi [OF example_read_ok len] en plain
  have "dpi_x (resolutions (profile
          (snd (sinowealth_read_profile example_hid example_device))) ! 1) =
        sinowealth_raw_to_dpi (ucast (dpi (drv_data
          (snd (sinowealth_read_profile example_hid example_device))) ! 1))"
    and "dpi_y (resolutions (profile
          (snd (sinowealth_read_profile example_hid example_device))) ! 1) =
        sinowealth_raw_to_dpi (ucast (dpi (drv_data
          (snd (sinowealth_read_profile example_hid example_device))) ! 1))"
    unfolding idx by blast+
  then show ?thesis
    using example_read_ok len idx en plain raw
    by (simp add: sinowealth_raw_to_dpi_def)
qed

text \<open>
  C8. After a successful read of the probe's profile, a resolution is active exactly
  when its index is \<open>active_dpi - 1\<close>, and it is the default exactly when it is active.
\<close>

theorem active_resolution_off_by_one:
  assumes "profile_ok (profile dev)"
    and "fst (sinowealth_read_profile hid dev) = 0"
    and "res \<in> set (resolutions (profile (snd (sinowealth_read_profile hid dev))))"
  shows "is_active res =
           (int (index res) =
              uint (active_dpi (drv_data (snd (sinowealth_read_profile hid dev)))) - 1) \<and>
         is_default res = is_active res"
proof -
  from assms(3) obtain res0 where
    res0: "res0 \<in> set (resolutions (profile dev))" and
    res: "res = read_resolution (drv_data (snd (sinowealth_read_profile hid dev)))
             sinowealth_dpi_list res0"
    by (auto simp add: read_profile_resolutions [OF assms(2)])
  have "index res0 < 6"
    using assms(1) res0 by (rule profile_ok_indices)
  then show ?thesis
    by (simp add: res read_resolution_active active_index_compare)
qed

theorem active_resolution_off_by_one_witness:
  "profile_ok (profile example_device) \<and>
   fst (sinowealth_read_profile example_hid example_device) = 0 \<and>
   active_dpi (drv_data (snd (sinowealth_read_profile example_hid example_device))) = 2 \<and>
   index (resolutions (profile (snd (sinowealth_read_profile example_hid example_device))) ! 1) = 1 \<and>
   is_active (resolutions (profile (snd (sinowealth_read_profile example_hid example_device))) ! 1) \<and>
   is_default (resolutions (profile (snd (sinowealth_read_profile example_hid example_device))) ! 1) \<and>
   \<not> is_active (resolutions (profile (snd (sinowealth_read_profile example_hid example_device))) ! 0)"
proof -
  have a: "active_dpi (drv_data (snd (sinowealth_read_profile example_hid example_device))) = 2"
    by (simp add: example_read_report example_report_fields)
  have m1: "resolutions (profile (snd (sinowealth_read_profile example_hid example_device))) ! 1
      \<in> set (resolutions (profile (snd (sinowealth_read_profile example_hid example_device))))"
    by (rule nth_mem) (simp add: example_read_length)
  have m0: "resolutions (profile (snd (sinowealth_read_profile example_hid example_device))) ! 0
      \<in> set (resolutions (profile (snd (sinowealth_read_profile example_hid example_device))))"
    by (rule nth_mem) (simp add: example_read_length)
  show ?thesis
    using active_resolution_off_by_one [OF example_profile_ok example_read_ok m1]
      active_resolution_off_by_one [OF example_profile_ok example_read_ok m0]
      example_profile_ok example_read_ok
    by (simp add: a example_read_slot_0(1) example_read_slot_1 [simplified])
qed

section \<open>Lighting\<close>

lemma commit_config_body_led:
  "rgb_effect (commit_config dev) =
     (case mode (leds (profile dev) ! 0) of
        RATBAG_LED_OFF \<Rightarrow> RGB_OFF
      | RATBAG_LED_ON \<Rightarrow> RGB_SINGLE
      | RATBAG_LED_CYCLE \<Rightarrow> RGB_GLORIOUS
      | RATBAG_LED_BREATHING \<Rightarrow> RGB_BREATHING1)"
  "mode (leds (profile dev) ! 0) = RATBAG_LED_ON \<Longrightarrow>
     single_color (commit_config dev) = sinowealth_color_to_raw (color (leds (profile dev) ! 0))"
  "mode (leds (profile dev) ! 0) = RATBAG_LED_BREATHING \<Longrightarrow>
     breathing1_color (commit_config dev) =
       sinowealth_color_to_raw (color (leds (profile dev) ! 0))"
  by (simp_all add: commit_config_def Let_def commit_body_led_def split: ratbag_led_mode.split)

lemma read_body_led_cycle:
  "rgb_effect cfg \<in> {RGB_GLORIOUS, RGB_BREATHING, RGB_BREATHING7, RGB_TAIL, RGB_RAVE, RGB_WAVE}
   \<Longrightarrow> mode (read_body_led cfg l) = RATBAG_LED_CYCLE"
  by (auto simp add: read_body_led_def Let_def RGB_OFF_def RGB_SINGLE_def RGB_GLORIOUS_def
      RGB_BREATHING_def RGB_BREATHING7_def RGB_TAIL_def RGB_RAVE_def RGB_WAVE_def)

lemma read_body_led_off:
  "rgb_effect cfg = RGB_OFF \<Longrightarrow> mode (read_body_led cfg l) = RATBAG_LED_OFF"
  by (simp add: read_body_led_def Let_def)

lemma read_body_led_single:
  "rgb_effect cfg = RGB_SINGLE \<Longrightarrow>
   mode (read_body_led cfg l) = RATBAG_LED_ON \<and>
   color (read_body_led cfg l) = sinowealth_raw_to_color (single_color cfg)"
  by (simp add: read_body_led_def Let_def RGB_OFF_def RGB_SINGLE_def)

lemma read_body_led_breathing1:
  "rgb_effect cfg = RGB_BREATHING1 \<Longrightarrow>
   mode (read_body_led cfg l) = RATBAG_LED_BREATHING \<and>
   color (read_body_led cfg l) = sinowealth_raw_to_color (breathing1_color cfg)"
  by (simp add: read_body_led_def Let_def RGB_OFF_def RGB_SINGLE_def RGB_GLORIOUS_def
      RGB_BREATHING_def RGB_BREATHING7_def RGB_TAIL_def RGB_RAVE_def RGB_WAVE_def
      RGB_BREATHING1_def)

lemma profile_ok_leds: "profile_ok p \<Longrightarrow> leds p \<noteq> []"
  by (auto simp add: profile_ok_def SINOWEALTH_NUM_DPIS_def)

lemma read_profile_body_led:
  assumes "profile_ok (profile dev)" and "fst (sinowealth_read_profile hid dev) = 0"
  shows "leds (profile (snd (sinowealth_read_profile hid dev))) ! 0 =
           read_body_led (drv_data (snd (sinowealth_read_profile hid dev)))
             (leds (profile dev) ! 0)"
  by (simp add: read_profile_success [OF assms(2)] populate_profile_body_led
      profile_ok_leds [OF assms(1)])

lemma example_device_on_ok: "profile_ok (profile example_device_on)"
  by (simp add: profile_ok_def example_device_on_def example_device_def example_profile_def
      example_resolution_def SINOWEALTH_NUM_DPIS_def upt_rec)

lemma example_device_on_led:
  "mode (leds (profile example_device_on) ! 0) = RATBAG_LED_ON"
  "color (leds (profile example_device_on) ! 0) = \<lparr>red = 255, green = 128, blue = 7\<rparr>"
  by (simp_all add: example_device_on_def example_device_def example_profile_def example_led_def)

lemma single_read_ok: "fst (sinowealth_read_profile single_hid example_device) = 0"
  by (simp add: sinowealth_read_profile_def single_hid_def Let_def sizeof_config_report_def)

lemma single_read_report:
  "drv_data (snd (sinowealth_read_profile single_hid example_device)) =
     config_report_of_bytes (take sizeof_config_report single_data)"
  by (simp add: sinowealth_read_profile_def single_hid_def Let_def sizeof_config_report_def)

lemma single_report_fields:
  "rgb_effect (config_report_of_bytes (take sizeof_config_report single_data)) = RGB_SINGLE"
  "single_color (config_report_of_bytes (take sizeof_config_report single_data)) =
     \<lparr>r = 255, g = 128, b = 7\<rparr>"
  by (simp_all add: config_report_of_bytes_def sizeof_config_report_def single_data_def
      zalloc_def SINOWEALTH_CONFIG_SIZE_def RGB_SINGLE_def RGB8_at_def)

text \<open>
  C6. \<open>sinowealth_commit\<close> leaves in the device a report whose effect follows the
  mode of the body LED: off gives \<open>RGB_OFF\<close>; on gives \<open>RGB_SINGLE\<close>, with the red,
  green and blue of the LED colour in \<open>single_color\<close>; cycle gives \<open>RGB_GLORIOUS\<close>
  (which is not \<open>RGB_WAVE\<close>); breathing gives \<open>RGB_BREATHING1\<close>, with the three
  channels of the LED colour in \<open>breathing1_color\<close>. A successful read maps the effect
  to the mode: \<open>RGB_OFF\<close> to off; \<open>RGB_SINGLE\<close> to on, with the three channels of
  \<open>single_color\<close> as the LED colour; each of \<open>RGB_GLORIOUS\<close>, \<open>RGB_BREATHING\<close>,
  \<open>RGB_BREATHING7\<close>, \<open>RGB_TAIL\<close>, \<open>RGB_RAVE\<close>, \<open>RGB_WAVE\<close> to cycle;
  \<open>RGB_BREATHING1\<close> to breathing, with the three channels of \<open>breathing1_color\<close>.
  So a report read with \<open>RGB_WAVE\<close> and committed again carries \<open>RGB_GLORIOUS\<close>.
\<close>

theorem lighting_mapping_lossy:
  assumes "profile_ok (profile dev)"
  shows
    "(mode (leds (profile dev) ! 0) = RATBAG_LED_OFF \<longrightarrow>
        rgb_effect (drv_data (snd (sinowealth_commit hid dev))) = RGB_OFF) \<and>
     (mode (leds (profile dev) ! 0) = RATBAG_LED_ON \<longrightarrow>
        rgb_effect (drv_data (snd (sinowealth_commit hid dev))) = RGB_SINGLE \<and>
        r (single_color (drv_data (snd (sinowealth_commit hid dev)))) =
          red (color (leds (profile dev) ! 0)) \<and>
        g (single_color (drv_data (snd (sinowealth_commit hid dev)))) =
          green (color (leds (profile dev) ! 0)) \<and>
        b (single_color (drv_data (snd (sinowealth_commit hid dev)))) =
          blue (color (leds (profile dev) ! 0))) \<and>
     (mode (leds (profile dev) ! 0) = RATBAG_LED_CYCLE \<longrightarrow>
        rgb_effect (drv_data (snd (sinowealth_commit hid dev))) = RGB_GLORIOUS \<and>
        rgb_effect (drv_data (snd (sinowealth_commit hid dev))) \<noteq> RGB_WAVE) \<and>
     (mode (leds (profile dev) ! 0) = RATBAG_LED_BREATHING \<longrightarrow>
        rgb_effect (drv_data (snd (sinowealth_commit hid dev))) = RGB_BREATHING1 \<and>
        r (breathing1_color (drv_data (snd (sinowealth_commit hid dev)))) =
          red (color (leds (profile dev) ! 0)) \<and>
        g (breathing1_color (drv_data (snd (sinowealth_commit hid dev)))) =
          green (color (leds (profile dev) ! 0)) \<and>
        b (breathing1_color (drv_data (snd (sinowealth_commit hid dev)))) =
          blue (color (leds (profile dev) ! 0))) \<and>
     (fst (sinowealth_read_profile hid dev) = 0 \<longrightarrow>
        (rgb_effect (drv_data (snd (sinowealth_read_profile hid dev))) = RGB_OFF \<longrightarrow>
           mode (leds (profile (snd (sinowealth_read_profile hid dev))) ! 0) = RATBAG_LED_OFF) \<and>
        (rgb_effect (drv_data (snd (sinowealth_read_profile hid dev))) = RGB_SINGLE \<longrightarrow>
           mode (leds (profile (snd (sinowealth_read_profile hid dev))) ! 0) = RATBAG_LED_ON \<and>
           red (color (leds (profile (snd (sinowealth_read_profile hid dev))) ! 0)) =
             r (single_color (drv_data (snd (sinowealth_read_profile hid dev)))) \<and>
           green (color (leds (profile (snd (sinowealth_read_profile hid dev))) ! 0)) =
             g (single_color (drv_data (snd (sinowealth_read_profile hid dev)))) \<and>
           blue (color (leds (profile (snd (sinowealth_read_profile hid dev))) ! 0)) =
             b (single_color (drv_data (snd (sinowealth_read_profile hid dev))))) \<and>
        (rgb_effect (drv_data (snd (sinowealth_read_profile hid dev))) \<in>
           {RGB_GLORIOUS, RGB_BREATHING, RGB_BREATHING7, RGB_TAIL, RGB_RAVE, RGB_WAVE} \<longrightarrow>
           mode (leds (profile (snd (sinowealth_read_profile hid dev))) ! 0) = RATBAG_LED_CYCLE \<and>
           rgb_effect (drv_data (snd (sinowealth_commit hid
             (snd (sinowealth_read_profile hid dev))))) = RGB_GLORIOUS) \<and>
        (rgb_effect (drv_data (snd (sinowealth_read_profile hid dev))) = RGB_BREATHING1 \<longrightarrow>
           mode (leds (profile (snd (sinowealth_read_profile hid dev))) ! 0) =
             RATBAG_LED_BREATHING \<and>
           red (color (leds (profile (snd (sinowealth_read_profile hid dev))) ! 0)) =
             r (breathing1_color (drv_data (snd (sinowealth_read_profile hid dev)))) \<and>
           green (color (leds (profile (snd (sinowealth_read_profile hid dev))) ! 0)) =
             g (breathing1_color (drv_data (snd (sinowealth_read_profile hid dev)))) \<and>
           blue (color (leds (profile (snd (sinowealth_read_profile hid dev))) ! 0)) =
             b (breathing1_color (drv_data (snd (sinowealth_read_profile hid dev))))))"
proof -
  have ne: "RGB_GLORIOUS \<noteq> RGB_WAVE"
    by (simp add: RGB_GLORIOUS_def RGB_WAVE_def)
  then have commit:
    "mode (leds (profile dev) ! 0) = RATBAG_LED_OFF \<longrightarrow>
        rgb_effect (commit_config dev) = RGB_OFF"
    "mode (leds (profile dev) ! 0) = RATBAG_LED_ON \<longrightarrow>
        rgb_effect (commit_config dev) = RGB_SINGLE \<and>
        r (single_color (commit_config dev)) = red (color (leds (profile dev) ! 0)) \<and>
        g (single_color (commit_config dev)) = green (color (leds (profile dev) ! 0)) \<and>
        b (single_color (commit_config dev)) = blue (color (leds (profile dev) ! 0))"
    "mode (leds (profile dev) ! 0) = RATBAG_LED_CYCLE \<longrightarrow>
        rgb_effect (commit_config dev) = RGB_GLORIOUS \<and>
        rgb_effect (commit_config dev) \<noteq> RGB_WAVE"
    "mode (leds (profile dev) ! 0) = RATBAG_LED_BREATHING \<longrightarrow>
        rgb_effect (commit_config dev) = RGB_BREATHING1 \<and>
        r (breathing1_color (commit_config dev)) = red (color (leds (profile dev) ! 0)) \<and>
        g (breathing1_color (commit_config dev)) = green (color (leds (profile dev) ! 0)) \<and>
        b (breathing1_color (commit_config dev)) = blue (color (leds (profile dev) ! 0))"
    by (simp_all add: commit_config_body_led sinowealth_color_to_raw_def)
  have read: ?thesis if ok: "fst (sinowealth_read_profile hid dev) = 0"
  proof -
    note led = read_profile_body_led [OF assms ok]
    have again: "rgb_effect (commit_config (snd (sinowealth_read_profile hid dev))) = RGB_GLORIOUS"
      if "mode (leds (profile (snd (sinowealth_read_profile hid dev))) ! 0) = RATBAG_LED_CYCLE"
      using that by (simp add: commit_config_body_led(1))
    show ?thesis
      unfolding commit_device_report
      using commit ok again ne
      by (simp add: led read_body_led_off read_body_led_single read_body_led_breathing1
          read_body_led_cycle sinowealth_raw_to_color_def del: insert_iff)
  qed
  show ?thesis
  proof (cases "fst (sinowealth_read_profile hid dev) = 0")
    case True
    then show ?thesis by (rule read)
  next
    case False
    then show ?thesis
      unfolding commit_device_report using commit ne by simp
  qed
qed

theorem lighting_mapping_lossy_witness:
  "profile_ok (profile example_device) \<and>
   mode (leds (profile example_device) ! 0) = RATBAG_LED_CYCLE \<and>
   rgb_effect (drv_data example_device) = RGB_WAVE \<and>
   rgb_effect (drv_data (snd (sinowealth_commit example_hid example_device))) = RGB_GLORIOUS \<and>
   fst (sinowealth_read_profile example_hid example_device) = 0 \<and>
   rgb_effect (drv_data (snd (sinowealth_read_profile example_hid example_device))) = RGB_WAVE \<and>
   mode (leds (profile (snd (sinowealth_read_profile example_hid example_device))) ! 0) =
     RATBAG_LED_CYCLE \<and>
   rgb_effect (drv_data (snd (sinowealth_commit example_hid
     (snd (sinowealth_read_profile example_hid example_device))))) = RGB_GLORIOUS \<and>
   profile_ok (profile example_device_on) \<and>
   mode (leds (profile example_device_on) ! 0) = RATBAG_LED_ON \<and>
   color (leds (profile example_device_on) ! 0) = \<lparr>red = 255, green = 128, blue = 7\<rparr> \<and>
   rgb_effect (drv_data (snd (sinowealth_commit example_hid example_device_on))) = RGB_SINGLE \<and>
   r (single_color (drv_data (snd (sinowealth_commit example_hid example_device_on)))) = 255 \<and>
   g (single_color (drv_data (snd (sinowealth_commit example_hid example_device_on)))) = 128 \<and>
   b (single_color (drv_data (snd (sinowealth_commit example_hid example_device_on)))) = 7 \<and>
   fst (sinowealth_read_profile single_hid example_device) = 0 \<and>
   rgb_effect (drv_data (snd (sinowealth_read_profile single_hid example_device))) = RGB_SINGLE \<and>
   single_color (drv_data (snd (sinowealth_read_profile single_hid example_device))) =
     \<lparr>r = 255, g = 128, b = 7\<rparr> \<and>
   mode (leds (profile (snd (sinowealth_read_profile single_hid example_device))) ! 0) =
     RATBAG_LED_ON \<and>
   red (color (leds (profile (snd (sinowealth_read_profile single_hid example_device))) ! 0)) = 255 \<and>
   green (color (leds (profile (snd (sinowealth_read_profile single_hid example_device))) ! 0)) = 128 \<and>
   blue (color (leds (profile (snd (sinowealth_read_profile single_hid example_device))) ! 0)) = 7"
proof -
  have m: "mode (leds (profile example_device) ! 0) = RATBAG_LED_CYCLE"
    by (simp add: example_device_def example_profile_def example_led_def)
  have before: "rgb_effect (drv_data example_device) = RGB_WAVE"
    by (simp add: example_device_def example_report_def RGB_WAVE_def)
  have e: "rgb_effect (drv_data (snd (sinowealth_read_profile example_hid example_device))) =
      RGB_WAVE"
    by (simp add: example_read_report example_report_fields)
  have cycle:
    "rgb_effect (drv_data (snd (sinowealth_commit example_hid example_device))) = RGB_GLORIOUS \<and>
     mode (leds (profile (snd (sinowealth_read_profile example_hid example_device))) ! 0) =
       RATBAG_LED_CYCLE \<and>
     rgb_effect (drv_data (snd (sinowealth_commit example_hid
       (snd (sinowealth_read_profile example_hid example_device))))) = RGB_GLORIOUS"
    using lighting_mapping_lossy [OF example_profile_ok, of example_hid] example_read_ok m e
    by simp
  have on:
    "rgb_effect (drv_data (snd (sinowealth_commit example_hid example_device_on))) = RGB_SINGLE \<and>
     r (single_color (drv_data (snd (sinowealth_commit example_hid example_device_on)))) = 255 \<and>
     g (single_color (drv_data (snd (sinowealth_commit example_hid example_device_on)))) = 128 \<and>
     b (single_color (drv_data (snd (sinowealth_commit example_hid example_device_on)))) = 7"
    using lighting_mapping_lossy [OF example_device_on_ok, of example_hid] example_device_on_led
    by simp
  have s: "rgb_effect (drv_data (snd (sinowealth_read_profile single_hid example_device))) =
      RGB_SINGLE"
    "single_color (drv_data (snd (sinowealth_read_profile single_hid example_device))) =
      \<lparr>r = 255, g = 128, b = 7\<rparr>"
    by (simp_all add: single_read_report single_report_fields)
  have single:
    "mode (leds (profile (snd (sinowealth_read_profile single_hid example_device))) ! 0) =
       RATBAG_LED_ON \<and>
     red (color (leds (profile (snd (sinowealth_read_profile single_hid example_device))) ! 0)) = 255 \<and>
     green (color (leds (profile (snd (sinowealth_read_profile single_hid example_device))) ! 0)) = 128 \<and>
     blue (color (leds (profile (snd (sinowealth_read_profile single_hid example_device))) ! 0)) = 7"
    using lighting_mapping_lossy [OF example_profile_ok, of single_hid] single_read_ok s
    by simp
  show ?thesis
    using cycle on single example_profile_ok example_device_on_ok example_device_on_led
      example_read_ok single_read_ok m before e s
    by simp
qed

end
